theory Spec2Isabelle
  imports Complex_Main
begin

section \<open>JavaScript values\<close>

text \<open>
  A JavaScript string is modelled as the list of its code points (what
  \<^verbatim>\<open>StringToCodePoints\<close> yields; an unpaired surrogate stands for itself).
  \<open>js\<close> turns an ASCII literal into such a list.
\<close>

type_synonym jsstring = "nat list"

definition js :: "string \<Rightarrow> jsstring" where
  "js s = map of_char s"

text \<open>
  A number is a rational (every finite double is one) or one of the three special
  values. Both zeros are \<open>Fin 0\<close>.
\<close>

datatype jsnum = Fin rat | NaN | PosInf | NegInf

datatype jsval =
    JUndefined
  | JNull
  | JBool bool
  | JNum jsnum
  | JStr jsstring
  | JArr "jsval list"
  | JObj "(jsstring \<times> jsval) list"

datatype jstype = TUndefined | TObject | TBoolean | TNumber | TString

text \<open>
  What a \<^verbatim>\<open>throw\<close> carries: an \<^verbatim>\<open>Error\<close> with its message, a
  \<^verbatim>\<open>TypeError\<close> of the runtime (also an instance of \<^verbatim>\<open>Error\<close>),
  or any other value.
\<close>

datatype thrown = Error jsstring | TypeError jsstring | Thrown jsval

section \<open>The outside world\<close>

record request =
  url :: jsstring
  searchParams :: "(jsstring \<times> jsstring) list"
  http_method :: jsstring
  headers :: "(jsstring \<times> jsstring) list"

record response =
  ok :: bool
  status :: nat
  statusText :: jsstring
  body_text :: "thrown + jsstring"
  body_json :: "thrown + jsval"

text \<open>
  The methods of the line-protocol sender of \<^verbatim>\<open>@questdb/nodejs-client\<close>, with
  the arguments as the caller passes them.
\<close>

datatype sender_call =
    FromConfig jsstring
  | Table jsstring
  | Symbol jsstring jsval
  | StringColumn jsstring jsval
  | BooleanColumn jsstring jsval
  | FloatColumn jsstring jsval
  | IntColumn jsstring jsval
  | TimestampColumn jsstring jsval
  | At jsval jsstring
  | AtNow
  | Flush
  | Close

datatype log_level = Info | Err

datatype console_arg = Msg jsstring | Caught thrown

datatype event =
    HttpGet request
  | SenderCall sender_call
  | SendLoggingMessage log_level jsstring
  | ConsoleError jsstring console_arg

text \<open>
  Everything the repository calls and does not define: the Unicode tables and the
  number formatting of the runtime, \<^verbatim>\<open>Date.parse\<close>, \<^verbatim>\<open>JSON.stringify\<close>,
  the \<^verbatim>\<open>URL\<close> constructor, \<^verbatim>\<open>fetch\<close>, the sender library and the
  protocol server. The external calls answer as a function of what has happened
  so far.
\<close>

record env =
  toUpperCase_special :: "nat \<Rightarrow> jsstring"
  Number_toString_other :: "rat \<Rightarrow> jsstring"
  Date_parse :: "jsstring \<Rightarrow> jsnum"
  JSON_stringify :: "jsval \<Rightarrow> jsval"
  URL_parses :: "jsstring \<Rightarrow> bool"
  fetch :: "event list \<Rightarrow> request \<Rightarrow> thrown + response"
  sender_throws :: "event list \<Rightarrow> sender_call \<Rightarrow> thrown option"
  isConnected :: "event list \<Rightarrow> bool"
  sendLoggingMessage_throws :: "event list \<Rightarrow> thrown option"

section \<open>Built-in operations\<close>

fun typeof :: "jsval \<Rightarrow> jstype" where
  "typeof JUndefined = TUndefined"
| "typeof JNull = TObject"
| "typeof (JBool b) = TBoolean"
| "typeof (JNum n) = TNumber"
| "typeof (JStr s) = TString"
| "typeof (JArr xs) = TObject"
| "typeof (JObj kvs) = TObject"

fun truthy :: "jsval \<Rightarrow> bool" where
  "truthy JUndefined = False"
| "truthy JNull = False"
| "truthy (JBool b) = b"
| "truthy (JNum n) = (n \<noteq> NaN \<and> n \<noteq> Fin 0)"
| "truthy (JStr s) = (s \<noteq> [])"
| "truthy (JArr xs) = True"
| "truthy (JObj kvs) = True"

definition js_or :: "jsval \<Rightarrow> jsval \<Rightarrow> jsval" where
  "js_or a b = (if truthy a then a else b)"

definition Number_isInteger :: "jsval \<Rightarrow> bool" where
  "Number_isInteger v = (case v of JNum (Fin q) \<Rightarrow> of_int \<lfloor>q\<rfloor> = q | _ \<Rightarrow> False)"

definition Array_isArray :: "jsval \<Rightarrow> bool" where
  "Array_isArray v = (case v of JArr xs \<Rightarrow> True | _ \<Rightarrow> False)"

function digits :: "nat \<Rightarrow> jsstring" where
  "digits n = (if n < 10 then [48 + n] else digits (n div 10) @ [48 + n mod 10])"
  by pat_completeness auto
termination
  by (relation "measure id") auto

declare digits.simps [simp del]

text \<open>
  \<^verbatim>\<open>Number::toString\<close>: decimal digits for an integer below \<open>10\<^sup>2\<^sup>1\<close>, the names
  of the special values, and the runtime's shortest round-trip text otherwise.
\<close>

definition Number_toString :: "env \<Rightarrow> jsnum \<Rightarrow> jsstring" where
  "Number_toString env n =
     (case n of
        NaN \<Rightarrow> js ''NaN''
      | PosInf \<Rightarrow> js ''Infinity''
      | NegInf \<Rightarrow> js ''-Infinity''
      | Fin q \<Rightarrow>
          if of_int \<lfloor>q\<rfloor> = q \<and> \<bar>q\<bar> < 10 ^ 21
          then (if q < 0 then js ''-'' else []) @ digits (nat \<bar>\<lfloor>q\<rfloor>\<bar>)
          else Number_toString_other env q)"

fun join :: "jsstring \<Rightarrow> jsstring list \<Rightarrow> jsstring" where
  "join sep [] = []"
| "join sep [x] = x"
| "join sep (x # y # ys) = x @ sep @ join sep (y # ys)"

text \<open>
  \<^verbatim>\<open>String(v)\<close> on the values JSON can carry. An object prints as
  \<^verbatim>\<open>[object Object]\<close>, an array as its elements joined by commas, a null or
  undefined element as the empty string.
\<close>

fun String_js :: "env \<Rightarrow> jsval \<Rightarrow> jsstring" where
  "String_js env JUndefined = js ''undefined''"
| "String_js env JNull = js ''null''"
| "String_js env (JBool b) = (if b then js ''true'' else js ''false'')"
| "String_js env (JNum n) = Number_toString env n"
| "String_js env (JStr s) = s"
| "String_js env (JArr xs) =
     join (js '','')
       (map (\<lambda>x. if x = JUndefined \<or> x = JNull then [] else String_js env x) xs)"
| "String_js env (JObj kvs) = js ''[object Object]''"

text \<open>Interpolating an optional string in a template literal.\<close>

definition template_str :: "jsstring option \<Rightarrow> jsstring" where
  "template_str x = (case x of None \<Rightarrow> js ''undefined'' | Some s \<Rightarrow> s)"

definition template_num :: "env \<Rightarrow> jsnum option \<Rightarrow> jsstring" where
  "template_num env x = (case x of None \<Rightarrow> js ''undefined'' | Some n \<Rightarrow> Number_toString env n)"

definition truthy_str :: "jsstring option \<Rightarrow> bool" where
  "truthy_str x = (case x of None \<Rightarrow> False | Some s \<Rightarrow> s \<noteq> [])"

definition truthy_num :: "jsnum option \<Rightarrow> bool" where
  "truthy_num x = (case x of None \<Rightarrow> False | Some n \<Rightarrow> n \<noteq> NaN \<and> n \<noteq> Fin 0)"

subsection \<open>Strings\<close>

text \<open>The code points \<^verbatim>\<open>trim\<close> strips: WhiteSpace and LineTerminator of ECMAScript.\<close>

definition is_whitespace :: "nat \<Rightarrow> bool" where
  "is_whitespace c =
     (c \<in> {9, 10, 11, 12, 13, 32, 160, 5760, 8232, 8233, 8239, 8287, 12288, 65279}
      \<or> (8192 \<le> c \<and> c \<le> 8202))"

definition trim :: "jsstring \<Rightarrow> jsstring" where
  "trim s = rev (dropWhile is_whitespace (rev (dropWhile is_whitespace s)))"

definition ascii_upper :: "nat \<Rightarrow> nat" where
  "ascii_upper c = (if 97 \<le> c \<and> c \<le> 122 then c - 32 else c)"

text \<open>
  \<^verbatim>\<open>toUpperCase\<close> maps code point by code point; the mapping of a code point
  beyond ASCII (which may give several code points) is the runtime's table.
\<close>

definition toUpperCase :: "env \<Rightarrow> jsstring \<Rightarrow> jsstring" where
  "toUpperCase env s =
     concat (map (\<lambda>c. if c < 128 then [ascii_upper c] else toUpperCase_special env c) s)"

definition startsWith :: "jsstring \<Rightarrow> jsstring \<Rightarrow> bool" where
  "startsWith s p = (take (length p) s = p)"

definition is_letter :: "nat \<Rightarrow> bool" where
  "is_letter c = ((97 \<le> c \<and> c \<le> 122) \<or> (65 \<le> c \<and> c \<le> 90))"

definition is_digit :: "nat \<Rightarrow> bool" where
  "is_digit c = (48 \<le> c \<and> c \<le> 57)"

subsection \<open>UTF-8 and base64\<close>

definition utf8_of :: "nat \<Rightarrow> nat list" where
  "utf8_of c =
     (if c < 128 then [c]
      else if c < 2048 then [192 + c div 64, 128 + c mod 64]
      else if 55296 \<le> c \<and> c \<le> 57343 then [239, 191, 189]
      else if c < 65536 then [224 + c div 4096, 128 + (c div 64) mod 64, 128 + c mod 64]
      else [240 + c div 262144, 128 + (c div 4096) mod 64, 128 + (c div 64) mod 64,
            128 + c mod 64])"

definition utf8 :: "jsstring \<Rightarrow> nat list" where
  "utf8 s = concat (map utf8_of s)"

definition base64_digit :: "nat \<Rightarrow> nat" where
  "base64_digit n =
     (if n < 26 then 65 + n
      else if n < 52 then 97 + (n - 26)
      else if n < 62 then 48 + (n - 52)
      else if n = 62 then 43 else 47)"

fun base64 :: "nat list \<Rightarrow> jsstring" where
  "base64 [] = []"
| "base64 [a] = [base64_digit (a div 4), base64_digit ((a mod 4) * 16), 61, 61]"
| "base64 [a, b] =
     [base64_digit (a div 4), base64_digit ((a mod 4) * 16 + b div 16),
      base64_digit ((b mod 16) * 4), 61]"
| "base64 (a # b # c # bs) =
     [base64_digit (a div 4), base64_digit ((a mod 4) * 16 + b div 16),
      base64_digit ((b mod 16) * 4 + c div 64), base64_digit (c mod 64)] @ base64 bs"

subsection \<open>Property access\<close>

definition utf16_length :: "jsstring \<Rightarrow> nat" where
  "utf16_length s = sum_list (map (\<lambda>c. if c < 65536 then 1 else 2) s)"

text \<open>
  \<^verbatim>\<open>v.name\<close> for a name that no prototype defines. Reading a property of
  \<^verbatim>\<open>null\<close> or \<^verbatim>\<open>undefined\<close> throws.
\<close>

definition cannot_read :: "jsstring \<Rightarrow> jsstring \<Rightarrow> thrown" where
  "cannot_read what name =
     TypeError (js ''Cannot read properties of '' @ what @ js '' (reading '' @ [39] @ name
       @ [39] @ js '')'')"

fun get_member :: "jsval \<Rightarrow> jsstring \<Rightarrow> thrown + jsval" where
  "get_member JUndefined name = Inl (cannot_read (js ''undefined'') name)"
| "get_member JNull name = Inl (cannot_read (js ''null'') name)"
| "get_member (JObj kvs) name =
     Inr (case map_of kvs name of None \<Rightarrow> JUndefined | Some v \<Rightarrow> v)"
| "get_member (JArr xs) name =
     Inr (if name = js ''length'' then JNum (Fin (of_nat (length xs))) else JUndefined)"
| "get_member (JStr s) name =
     Inr (if name = js ''length'' then JNum (Fin (of_nat (utf16_length s))) else JUndefined)"
| "get_member (JBool b) name = Inr JUndefined"
| "get_member (JNum n) name = Inr JUndefined"

text \<open>The first UTF-16 code unit of a string, as a one-unit string.\<close>

definition first_unit :: "jsstring \<Rightarrow> jsval" where
  "first_unit s =
     (case s of
        [] \<Rightarrow> JUndefined
      | c # cs \<Rightarrow> JStr [if c < 65536 then c else 55296 + (c - 65536) div 1024])"

text \<open>\<^verbatim>\<open>v[0]\<close>.\<close>

fun get_index0 :: "jsval \<Rightarrow> thrown + jsval" where
  "get_index0 JUndefined = Inl (cannot_read (js ''undefined'') (js ''0''))"
| "get_index0 JNull = Inl (cannot_read (js ''null'') (js ''0''))"
| "get_index0 (JArr xs) = Inr (case xs of [] \<Rightarrow> JUndefined | x # rest \<Rightarrow> x)"
| "get_index0 (JObj kvs) =
     Inr (case map_of kvs (js ''0'') of None \<Rightarrow> JUndefined | Some v \<Rightarrow> v)"
| "get_index0 (JStr s) = Inr (first_unit s)"
| "get_index0 (JBool b) = Inr JUndefined"
| "get_index0 (JNum n) = Inr JUndefined"

section \<open>The client: state and effects\<close>

record config =
  host :: jsstring
  port :: jsnum
  username :: "jsstring option"
  password :: "jsstring option"
  autoFlushRows :: "jsnum option"
  autoFlushInterval :: "jsnum option"

text \<open>
  The mutable part of \<^verbatim>\<open>QuestDBClient\<close> is its \<^verbatim>\<open>sender\<close> field
  (\<open>None\<close> is \<^verbatim>\<open>null\<close>; a sender is named by the number of senders created
  before it). The trace lists every external call made so far, oldest first.
\<close>

record state =
  sender :: "nat option"
  trace :: "event list"

type_synonym 'a io = "state \<Rightarrow> (thrown + 'a) \<times> state"

definition ret :: "'a \<Rightarrow> 'a io" where
  "ret x = (\<lambda>s. (Inr x, s))"

definition throw :: "thrown \<Rightarrow> 'a io" where
  "throw e = (\<lambda>s. (Inl e, s))"

definition bind :: "'a io \<Rightarrow> ('a \<Rightarrow> 'b io) \<Rightarrow> 'b io" where
  "bind m f = (\<lambda>s. case m s of (Inl e, s') \<Rightarrow> (Inl e, s') | (Inr x, s') \<Rightarrow> f x s')"

definition try_catch :: "'a io \<Rightarrow> (thrown \<Rightarrow> 'a io) \<Rightarrow> 'a io" where
  "try_catch m h = (\<lambda>s. case m s of (Inl e, s') \<Rightarrow> h e s' | (Inr x, s') \<Rightarrow> (Inr x, s'))"

text \<open>Awaiting a promise that has settled.\<close>

definition await :: "thrown + 'a \<Rightarrow> 'a io" where
  "await r = (\<lambda>s. (r, s))"

definition emit :: "event \<Rightarrow> unit io" where
  "emit ev = (\<lambda>s. (Inr (), s\<lparr>trace := trace s @ [ev]\<rparr>))"

definition do_fetch :: "env \<Rightarrow> request \<Rightarrow> response io" where
  "do_fetch env req = (\<lambda>s. (fetch env (trace s) req, s\<lparr>trace := trace s @ [HttpGet req]\<rparr>))"

definition sender_do :: "env \<Rightarrow> sender_call \<Rightarrow> unit io" where
  "sender_do env c =
     (\<lambda>s. ((case sender_throws env (trace s) c of Some e \<Rightarrow> Inl e | None \<Rightarrow> Inr ()),
           s\<lparr>trace := trace s @ [SenderCall c]\<rparr>))"

definition console_error :: "jsstring \<Rightarrow> console_arg \<Rightarrow> unit io" where
  "console_error label arg = emit (ConsoleError label arg)"

subsection \<open>Logger\<close>

text \<open>
  A log entry goes to the protocol server when it is connected and to the console
  otherwise, or when sending fails. The metadata of an entry is left out.
\<close>

definition send_logging_message :: "env \<Rightarrow> log_level \<Rightarrow> jsstring \<Rightarrow> unit io" where
  "send_logging_message env level message =
     (\<lambda>s. ((case sendLoggingMessage_throws env (trace s) of Some e \<Rightarrow> Inl e | None \<Rightarrow> Inr ()),
           s\<lparr>trace := trace s @ [SendLoggingMessage level message]\<rparr>))"

definition logger_info :: "env \<Rightarrow> jsstring \<Rightarrow> unit io" where
  "logger_info env message =
     try_catch
       (\<lambda>s. if isConnected env (trace s)
            then send_logging_message env Info message s
            else console_error (js ''[Info]'') (Msg message) s)
       (\<lambda>error. console_error (js ''[Info]'') (Msg message))"

definition logger_error :: "env \<Rightarrow> jsstring \<Rightarrow> unit io" where
  "logger_error env message =
     try_catch
       (\<lambda>s. if isConnected env (trace s)
            then send_logging_message env Err message s
            else console_error (js ''[Error]'') (Msg message) s)
       (\<lambda>error. console_error (js ''[Error]'') (Msg message))"

section \<open>QuestDBClient\<close>

definition buildConfigString :: "config \<Rightarrow> env \<Rightarrow> jsstring" where
  "buildConfigString cfg env =
     (let config0 = js ''http::addr='' @ host cfg @ js '':'' @ Number_toString env (port cfg);
          config1 =
            (if truthy_str (username cfg) \<and> truthy_str (password cfg)
             then config0 @ js '';username='' @ template_str (username cfg)
                    @ js '';password='' @ template_str (password cfg)
             else config0);
          config2 =
            (if truthy_num (autoFlushRows cfg)
             then config1 @ js '';auto_flush_rows='' @ template_num env (autoFlushRows cfg)
             else config1);
          config3 =
            (if truthy_num (autoFlushInterval cfg)
             then config2 @ js '';auto_flush_interval=''
                    @ template_num env (autoFlushInterval cfg)
             else config2)
      in config3)"

definition count_senders :: "event list \<Rightarrow> nat" where
  "count_senders tr = length (filter (\<lambda>ev. case ev of SenderCall (FromConfig c) \<Rightarrow> True | _ \<Rightarrow> False) tr)"

definition getSender :: "config \<Rightarrow> env \<Rightarrow> nat io" where
  "getSender cfg env =
     (\<lambda>s. case sender s of
        Some sd \<Rightarrow> (Inr sd, s)
      | None \<Rightarrow>
          (let configString = buildConfigString cfg env;
               fresh = count_senders (trace s)
           in bind (sender_do env (FromConfig configString))
                (\<lambda>u. bind (\<lambda>s1. (Inr (), s1\<lparr>sender := Some fresh\<rparr>))
                (\<lambda>u. bind (try_catch (logger_info env (js ''QuestDB sender initialized''))
                              (\<lambda>e. ret ()))
                (\<lambda>u. ret fresh))) s))"

text \<open>The endpoint and the request that \<^verbatim>\<open>query\<close> builds.\<close>

definition exec_url :: "config \<Rightarrow> env \<Rightarrow> jsstring" where
  "exec_url cfg env =
     js ''http://'' @ host cfg @ js '':'' @ Number_toString env (port cfg) @ js ''/exec''"

definition authHeader :: "config \<Rightarrow> jsstring option" where
  "authHeader cfg =
     (if truthy_str (username cfg) \<and> truthy_str (password cfg)
      then Some (js ''Basic ''
             @ base64 (utf8 (template_str (username cfg) @ js '':''
                 @ template_str (password cfg))))
      else None)"

definition exec_request :: "config \<Rightarrow> env \<Rightarrow> jsstring \<Rightarrow> jsstring \<Rightarrow> request" where
  "exec_request cfg env query_text format =
     \<lparr>url = exec_url cfg env,
      searchParams = [(js ''query'', query_text), (js ''fmt'', format)],
      http_method = js ''GET'',
      headers = (case authHeader cfg of
                   Some h \<Rightarrow> [(js ''Authorization'', h)]
                 | None \<Rightarrow> [])\<rparr>"

definition query :: "config \<Rightarrow> env \<Rightarrow> jsstring \<Rightarrow> jsstring option \<Rightarrow> jsval io" where
  "query cfg env query_text format_arg =
     (let format = (case format_arg of None \<Rightarrow> js ''json'' | Some f \<Rightarrow> f);
          trimmedQuery = toUpperCase env (trim query_text)
      in if \<not> startsWith trimmedQuery (js ''SELECT'')
         then throw (Error (js ''Only SELECT queries are allowed for safety reasons''))
         else if \<not> URL_parses env (exec_url cfg env)
         then throw (TypeError (js ''Invalid URL''))
         else
           bind (do_fetch env (exec_request cfg env query_text format))
             (\<lambda>response.
                if \<not> ok response
                then bind (await (body_text response))
                       (\<lambda>errorText.
                          throw (Error (js ''Query failed: '' @ digits (status response)
                                   @ js '' '' @ statusText response @ js ''. '' @ errorText)))
                else if format = js ''json''
                then await (body_json response)
                else bind (await (body_text response)) (\<lambda>t. ret (JStr t))))"

text \<open>The test of \<^verbatim>\<open>/^[a-zA-Z_][a-zA-Z0-9_]*$/\<close>.\<close>

definition table_name_test :: "jsstring \<Rightarrow> bool" where
  "table_name_test table =
     (case table of
        [] \<Rightarrow> False
      | c # cs \<Rightarrow>
          (is_letter c \<or> c = 95) \<and> list_all (\<lambda>d. is_letter d \<or> is_digit d \<or> d = 95) cs)"

definition table_columns_query :: "jsstring \<Rightarrow> jsstring" where
  "table_columns_query table = js ''SELECT * FROM table_columns('' @ [39] @ table @ [39] @ js '')''"

definition describeTable :: "config \<Rightarrow> env \<Rightarrow> jsstring \<Rightarrow> jsval io" where
  "describeTable cfg env table =
     (if \<not> table_name_test table
      then throw (Error (js ''Invalid table name: '' @ table))
      else query cfg env (table_columns_query table) (Some (js ''json'')))"

subsection \<open>insert\<close>

text \<open>
  The record is the list of its own enumerable entries in the order
  \<^verbatim>\<open>Object.entries\<close> gives them; \<^verbatim>\<open>data.timestamp\<close> reads the entry of
  that key, \<^verbatim>\<open>undefined\<close> when there is none.
\<close>

definition insert_timestamp :: "env \<Rightarrow> (jsstring \<times> jsval) list \<Rightarrow> jsval" where
  "insert_timestamp env data =
     (let data_timestamp =
            (case map_of data (js ''timestamp'') of None \<Rightarrow> JUndefined | Some v \<Rightarrow> v)
      in if data_timestamp \<noteq> JUndefined
         then (if typeof data_timestamp = TNumber then data_timestamp
               else JNum (Date_parse env (String_js env data_timestamp)))
         else JUndefined)"

definition columnData :: "(jsstring \<times> jsval) list \<Rightarrow> (jsstring \<times> jsval) list" where
  "columnData data = filter (\<lambda>(key, v). key \<noteq> js ''timestamp'') data"

text \<open>One turn of the loop over the columns: the sender method called, if any.\<close>

definition column_call :: "env \<Rightarrow> jsstring \<Rightarrow> jsval \<Rightarrow> sender_call option" where
  "column_call env key v =
     (if v = JNull \<or> v = JUndefined then None
      else if typeof v = TString then Some (Symbol key v)
      else if typeof v = TNumber then
        (if Number_isInteger v then Some (IntColumn key v) else Some (FloatColumn key v))
      else if typeof v = TBoolean then Some (BooleanColumn key v)
      else Some (Symbol key (JStr (String_js env v))))"

fun add_columns :: "env \<Rightarrow> (jsstring \<times> jsval) list \<Rightarrow> unit io" where
  "add_columns env [] = ret ()"
| "add_columns env ((key, v) # entries) =
     (case column_call env key v of
        None \<Rightarrow> add_columns env entries
      | Some c \<Rightarrow> bind (sender_do env c) (\<lambda>u. add_columns env entries))"

definition close_row :: "env \<Rightarrow> jsval \<Rightarrow> unit io" where
  "close_row env timestamp =
     (if timestamp \<noteq> JUndefined then sender_do env (At timestamp (js ''ms''))
      else sender_do env AtNow)"

definition insert_row :: "config \<Rightarrow> env \<Rightarrow> jsstring \<Rightarrow> (jsstring \<times> jsval) list \<Rightarrow> unit io" where
  "insert_row cfg env table data =
     bind (getSender cfg env)
       (\<lambda>sd. bind (sender_do env (Table table))
       (\<lambda>u. bind (add_columns env (columnData data))
       (\<lambda>u. bind (close_row env (insert_timestamp env data))
       (\<lambda>u. sender_do env Flush))))"

subsection \<open>listTables\<close>

text \<open>\<^verbatim>\<open>dataset.map((row) => row[0])\<close>: the first throw ends the loop.\<close>

fun first_cells :: "jsval list \<Rightarrow> thrown + jsval list" where
  "first_cells [] = Inr []"
| "first_cells (row # rows) =
     (case get_index0 row of
        Inl e \<Rightarrow> Inl e
      | Inr cell \<Rightarrow> (case first_cells rows of Inl e \<Rightarrow> Inl e | Inr cells \<Rightarrow> Inr (cell # cells)))"

text \<open>What \<^verbatim>\<open>listTables\<close> makes of the result of its query.\<close>

definition listTables_result :: "jsval \<Rightarrow> thrown + jsval list" where
  "listTables_result result =
     (if \<not> truthy result then Inr []
      else case get_member result (js ''dataset'') of
             Inl e \<Rightarrow> Inl e
           | Inr dataset \<Rightarrow>
               if truthy dataset \<and> Array_isArray dataset
               then (case dataset of JArr rows \<Rightarrow> first_cells rows | _ \<Rightarrow> Inr [])
               else Inr [])"

definition listTables :: "config \<Rightarrow> env \<Rightarrow> jsval list io" where
  "listTables cfg env =
     bind (query cfg env (js ''SELECT table_name FROM tables() ORDER BY table_name'')
             (Some (js ''json'')))
       (\<lambda>result. await (listTables_result result))"

subsection \<open>close\<close>

text \<open>The body of the \<^verbatim>\<open>try\<close> block of \<^verbatim>\<open>close\<close>.\<close>

definition flush_and_close :: "env \<Rightarrow> unit io" where
  "flush_and_close env =
     bind (sender_do env Flush)
       (\<lambda>u. bind (sender_do env Close)
       (\<lambda>u. try_catch (logger_info env (js ''QuestDB connection closed'')) (\<lambda>e. ret ())))"

definition close :: "env \<Rightarrow> unit io" where
  "close env =
     (\<lambda>s. case sender s of
        None \<Rightarrow> (Inr (), s)
      | Some sd \<Rightarrow>
          bind (try_catch (flush_and_close env)
                  (\<lambda>error. console_error (js ''Error closing QuestDB connection:'')
                             (Caught error)))
            (\<lambda>u s1. (Inr (), s1\<lparr>sender := None\<rparr>)) s)"

section \<open>Tool handlers\<close>

record content_item =
  item_type :: jsstring
  item_text :: jsval

text \<open>The response of a tool; \<open>isError = False\<close> stands for a response without the field.\<close>

record envelope =
  content :: "content_item list"
  structuredContent :: "jsval option"
  isError :: bool

text \<open>\<^verbatim>\<open>error instanceof Error ? error.message : String(error)\<close>\<close>

definition errorMessage :: "env \<Rightarrow> thrown \<Rightarrow> jsstring" where
  "errorMessage env error =
     (case error of Error m \<Rightarrow> m | TypeError m \<Rightarrow> m | Thrown v \<Rightarrow> String_js env v)"

definition error_envelope :: "jsstring \<Rightarrow> envelope" where
  "error_envelope message =
     \<lparr>content = [\<lparr>item_type = js ''text'', item_text = JStr (js ''Error: '' @ message)\<rparr>],
      structuredContent = None,
      isError = True\<rparr>"

text \<open>The catch block that the four handlers share, up to the prefix of the log entry.\<close>

definition handler_catch :: "env \<Rightarrow> jsstring \<Rightarrow> thrown \<Rightarrow> envelope io" where
  "handler_catch env prefix error =
     (let message = errorMessage env error
      in bind (logger_error env (prefix @ message)) (\<lambda>u. ret (error_envelope message)))"

text \<open>\<^verbatim>\<open>v?.length\<close>\<close>

definition optional_length :: "jsval \<Rightarrow> jsval" where
  "optional_length v =
     (if v = JUndefined \<or> v = JNull then JUndefined
      else case get_member v (js ''length'') of Inr n \<Rightarrow> n | Inl e \<Rightarrow> JUndefined)"

definition structuredOutput :: "jsstring \<Rightarrow> jsval \<Rightarrow> thrown + jsval" where
  "structuredOutput query_text queryResult =
     (case get_member queryResult (js ''dataset'') of
        Inl e \<Rightarrow> Inl e
      | Inr dataset \<Rightarrow>
     (case get_member queryResult (js ''count'') of
        Inl e \<Rightarrow> Inl e
      | Inr count \<Rightarrow>
     (case get_member queryResult (js ''columns'') of
        Inl e \<Rightarrow> Inl e
      | Inr columns \<Rightarrow>
          Inr (JObj
            [(js ''query'', JStr query_text),
             (js ''dataset'', js_or dataset (JArr [])),
             (js ''count'', js_or (js_or count (optional_length dataset)) (JNum (Fin 0))),
             (js ''columns'', js_or columns (JArr []))]))))"

definition text_content :: "jsval \<Rightarrow> content_item list" where
  "text_content t = [\<lparr>item_type = js ''text'', item_text = t\<rparr>]"

text \<open>The default of the parameter \<^verbatim>\<open>format\<close>, and \<^verbatim>\<open>format || "json"\<close>.\<close>

definition format_default :: "jsstring option \<Rightarrow> jsstring" where
  "format_default format_arg = (case format_arg of None \<Rightarrow> js ''json'' | Some f \<Rightarrow> f)"

definition or_json :: "jsstring \<Rightarrow> jsstring" where
  "or_json format = (if format = [] then js ''json'' else format)"

definition query_handler :: "config \<Rightarrow> env \<Rightarrow> jsstring \<Rightarrow> jsstring option \<Rightarrow> envelope io" where
  "query_handler cfg env query_text format_arg =
     (let format = format_default format_arg
      in try_catch
           (bind (query cfg env query_text (Some (or_json format)))
              (\<lambda>result.
                 if format = js ''json''
                 then bind (await (structuredOutput query_text result))
                        (\<lambda>output.
                           ret \<lparr>content = text_content (JSON_stringify env result),
                                structuredContent = Some output,
                                isError = False\<rparr>)
                 else ret \<lparr>content = text_content result,
                           structuredContent = None,
                           isError = False\<rparr>))
           (handler_catch env (js ''Query failed: '')))"

definition insert_message :: "jsstring \<Rightarrow> jsstring" where
  "insert_message table = js ''Successfully inserted data into table '' @ [39] @ table @ [39]"

definition insert_handler ::
  "config \<Rightarrow> env \<Rightarrow> jsstring \<Rightarrow> (jsstring \<times> jsval) list \<Rightarrow> envelope io" where
  "insert_handler cfg env table data =
     try_catch
       (bind (insert_row cfg env table data)
          (\<lambda>u. bind (logger_info env (js ''Inserted data into table '' @ [39] @ table @ [39]))
          (\<lambda>u. ret \<lparr>content = text_content (JStr (insert_message table)),
                     structuredContent =
                       Some (JObj [(js ''success'', JBool True), (js ''table'', JStr table),
                                   (js ''message'', JStr (insert_message table))]),
                     isError = False\<rparr>)))
       (handler_catch env (js ''Insert failed: ''))"

definition list_tables_handler :: "config \<Rightarrow> env \<Rightarrow> envelope io" where
  "list_tables_handler cfg env =
     try_catch
       (bind (listTables cfg env)
          (\<lambda>tables.
             let output = JObj [(js ''tables'', JArr tables),
                                (js ''count'', JNum (Fin (of_nat (length tables))))]
             in ret \<lparr>content = text_content (JSON_stringify env output),
                     structuredContent = Some output,
                     isError = False\<rparr>))
       (handler_catch env (js ''List tables failed: ''))"

definition describe_table_handler :: "config \<Rightarrow> env \<Rightarrow> jsstring \<Rightarrow> envelope io" where
  "describe_table_handler cfg env table =
     try_catch
       (bind (describeTable cfg env table)
          (\<lambda>result. bind (await (get_member result (js ''dataset'')))
          (\<lambda>dataset.
             let output = JObj [(js ''table'', JStr table),
                                (js ''columns'', js_or dataset result)]
             in ret \<lparr>content = text_content (JSON_stringify env result),
                     structuredContent = Some output,
                     isError = False\<rparr>)))
       (handler_catch env (js ''Describe table failed: ''))"

section \<open>Concrete inputs\<close>

text \<open>What \<^verbatim>\<open>loadConfig\<close> yields when no environment variable is set.\<close>

definition default_config :: config where
  "default_config =
     \<lparr>host = js ''localhost'', port = Fin 9000, username = None, password = None,
      autoFlushRows = None, autoFlushInterval = None\<rparr>"


definition ok_response :: "jsval \<Rightarrow> response" where
  "ok_response v =
     \<lparr>ok = True, status = 200, statusText = js ''OK'', body_text = Inr [], body_json = Inr v\<rparr>"

text \<open>
  A world in which every external call succeeds: the server answers every query
  with the given JSON value, no date string parses, the sender accepts every
  call and the protocol server is not connected.
\<close>

definition calm_env :: "jsval \<Rightarrow> env" where
  "calm_env answer =
     \<lparr>toUpperCase_special = (\<lambda>c. [c]),
      Number_toString_other = (\<lambda>q. js ''?''),
      Date_parse = (\<lambda>t. NaN),
      JSON_stringify = (\<lambda>v. JStr (js ''...'')),
      URL_parses = (\<lambda>u. True),
      fetch = (\<lambda>tr req. Inr (ok_response answer)),
      sender_throws = (\<lambda>tr c. None),
      isConnected = (\<lambda>tr. False),
      sendLoggingMessage_throws = (\<lambda>tr. None)\<rparr>"


text \<open>A world whose sender fails on every flush.\<close>

definition flush_fails_env :: env where
  "flush_fails_env =
     (calm_env JNull)
       \<lparr>sender_throws :=
          (\<lambda>tr c. case c of Flush \<Rightarrow> Some (Error (js ''connection refused'')) | _ \<Rightarrow> None)\<rparr>"

text \<open>A world whose sender flushes but fails to close.\<close>

definition close_fails_env :: env where
  "close_fails_env =
     (calm_env JNull)
       \<lparr>sender_throws :=
          (\<lambda>tr c. case c of Close \<Rightarrow> Some (Error (js ''socket hang up'')) | _ \<Rightarrow> None)\<rparr>"

definition fresh_state :: state where
  "fresh_state = \<lparr>sender = None, trace = []\<rparr>"

text \<open>The state after a first sender has been created.\<close>

definition connected_state :: state where
  "connected_state =
     \<lparr>sender = Some 0, trace = [SenderCall (FromConfig (js ''http::addr=localhost:9000''))]\<rparr>"

text \<open>Two answers of the server that its own protocol never gives.\<close>

definition null_row_answer :: jsval where
  "null_row_answer = JObj [(js ''dataset'', JArr [JArr [JStr (js ''trades'')], JNull])]"

definition zero_count_answer :: jsval where
  "zero_count_answer =
     JObj [(js ''count'', JNum (Fin 0)), (js ''dataset'', JArr [JArr [JNum (Fin 1)]])]"

definition two_tables_answer :: jsval where
  "two_tables_answer =
     JObj [(js ''query'', JStr (js ''SELECT table_name FROM tables() ORDER BY table_name'')),
           (js ''columns'', JArr [JObj [(js ''name'', JStr (js ''table_name''))]]),
           (js ''dataset'', JArr [JArr [JStr (js ''quotes'')], JArr [JStr (js ''trades'')]]),
           (js ''count'', JNum (Fin 2))]"


definition sample_row :: "(jsstring \<times> jsval) list" where
  "sample_row =
     [(js ''a'', JStr (js ''x'')), (js ''b'', JNum (Fin 1)), (js ''b2'', JNum (Fin (3 / 2))),
      (js ''c'', JBool True), (js ''n'', JNull),
      (js ''timestamp'', JNum (Fin 1699123456789))]"

section \<open>Vocabulary of the properties\<close>

text \<open>The calls that leave the process: requests and sender calls, not log entries.\<close>

fun is_adapter_call :: "event \<Rightarrow> bool" where
  "is_adapter_call (HttpGet r) = True"
| "is_adapter_call (SenderCall c) = True"
| "is_adapter_call (SendLoggingMessage l m) = False"
| "is_adapter_call (ConsoleError l a) = False"

definition adapter_calls :: "event list \<Rightarrow> event list" where
  "adapter_calls tr = filter is_adapter_call tr"

text \<open>The first cell of a row that is neither \<^verbatim>\<open>null\<close> nor \<^verbatim>\<open>undefined\<close>.\<close>

definition first_cell :: "jsval \<Rightarrow> jsval" where
  "first_cell row = (case get_index0 row of Inr cell \<Rightarrow> cell | Inl e \<Rightarrow> JUndefined)"

text \<open>The column that a sender call names, if it is a column call.\<close>

fun column_name :: "sender_call \<Rightarrow> jsstring option" where
  "column_name (Symbol k v) = Some k"
| "column_name (StringColumn k v) = Some k"
| "column_name (BooleanColumn k v) = Some k"
| "column_name (FloatColumn k v) = Some k"
| "column_name (IntColumn k v) = Some k"
| "column_name (TimestampColumn k v) = Some k"
| "column_name c = None"

text \<open>
  The sender calls of one complete row, after the sender has been obtained: the
  table, one call for each entry that \<open>column_call\<close> does not skip, the closing
  of the row and the flush.
\<close>

definition row_calls :: "env \<Rightarrow> jsstring \<Rightarrow> (jsstring \<times> jsval) list \<Rightarrow> sender_call list" where
  "row_calls env table data =
     [Table table]
     @ List.map_filter (\<lambda>(key, v). column_call env key v) (columnData data)
     @ [if insert_timestamp env data \<noteq> JUndefined
        then At (insert_timestamp env data) (js ''ms'') else AtNow,
        Flush]"

text \<open>
  \<open>performs env m full\<close>: from any state, \<open>m\<close> makes the sender calls \<open>full\<close> in
  this order and no request, stops early only when the sender throws, and
  leaves the sender field alone.
\<close>

definition performs :: "env \<Rightarrow> 'a io \<Rightarrow> sender_call list \<Rightarrow> bool" where
  "performs env m full =
     (\<forall>s. \<exists>cs evs rest.
        full = cs @ rest
        \<and> trace (snd (m s)) = trace s @ evs
        \<and> adapter_calls evs = map SenderCall cs
        \<and> sender (snd (m s)) = sender s
        \<and> (case fst (m s) of
             Inr x \<Rightarrow> rest = []
           | Inl e \<Rightarrow> \<exists>tr c. sender_throws env tr c = Some e))"

section \<open>Properties\<close>

lemma toUpperCase_ascii_prefix:
  "\<forall>c \<in> set p. c < 128 \<Longrightarrow> toUpperCase env (p @ r) = map ascii_upper p @ toUpperCase env r"
  by (induction p) (simp_all add: toUpperCase_def)

lemma ascii_upper_below: "ascii_upper c < 128 \<Longrightarrow> c < 128"
  by (simp add: ascii_upper_def split: if_splits)

lemma startsWith_upper:
  assumes "startsWith (map ascii_upper t) p" and "\<forall>c \<in> set p. c < 128"
  shows "startsWith (toUpperCase env t) p"
proof -
  let ?n = "length p"
  from assms(1) have eq: "map ascii_upper (take ?n t) = p"
    by (simp add: startsWith_def take_map)
  have "\<forall>c \<in> set (take ?n t). c < 128"
  proof
    fix c assume "c \<in> set (take ?n t)"
    then have "ascii_upper c \<in> set (map ascii_upper (take ?n t))" by simp
    then have "ascii_upper c \<in> set p" using eq by simp
    with assms(2) show "c < 128" by (auto dest: ascii_upper_below)
  qed
  then have "toUpperCase env (take ?n t @ drop ?n t) =
      map ascii_upper (take ?n t) @ toUpperCase env (drop ?n t)"
    by (rule toUpperCase_ascii_prefix)
  then have "toUpperCase env t = p @ toUpperCase env (drop ?n t)"
    using eq by simp
  then show ?thesis by (simp add: startsWith_def)
qed

lemma select_ascii: "\<forall>c \<in> set (js ''SELECT''). c < 128"
  by (simp add: js_def)

lemma trim_id:
  assumes "s \<noteq> []" and "\<not> is_whitespace (hd s)" and "\<not> is_whitespace (last s)"
  shows "trim s = s"
proof -
  have a: "dropWhile is_whitespace s = s"
    using assms(2) by (simp add: dropWhile_eq_self_iff)
  have "dropWhile is_whitespace (rev s) = rev s"
    using assms(1,3) by (simp add: dropWhile_eq_self_iff hd_rev)
  with a show ?thesis by (simp add: trim_def)
qed

lemma query_rejected:
  "\<not> startsWith (toUpperCase env (trim q)) (js ''SELECT'') \<Longrightarrow>
   query cfg env q fmt s =
     (Inl (Error (js ''Only SELECT queries are allowed for safety reasons'')), s)"
  by (simp add: query_def Let_def throw_def)

lemma query_bad_url:
  "startsWith (toUpperCase env (trim q)) (js ''SELECT'') \<Longrightarrow>
   \<not> URL_parses env (exec_url cfg env) \<Longrightarrow>
   query cfg env q fmt s = (Inl (TypeError (js ''Invalid URL'')), s)"
  by (simp add: query_def Let_def throw_def)

lemma query_sent:
  "startsWith (toUpperCase env (trim q)) (js ''SELECT'') \<Longrightarrow>
   URL_parses env (exec_url cfg env) \<Longrightarrow>
   snd (query cfg env q fmt s) =
     s\<lparr>trace := trace s @
          [HttpGet (exec_request cfg env q (case fmt of None \<Rightarrow> js ''json'' | Some f \<Rightarrow> f))]\<rparr>"
  by (simp add: query_def Let_def bind_def do_fetch_def await_def throw_def ret_def
      split: sum.splits prod.splits)


lemma drop_not_select:
  "\<not> startsWith (toUpperCase (calm_env a) (trim (js ''DROP TABLE trades''))) (js ''SELECT'')"
  by (simp add: js_def trim_def is_whitespace_def toUpperCase_def ascii_upper_def
      startsWith_def calm_env_def)

lemma padded_select:
  "startsWith (map ascii_upper (trim (js ''  select 1 ''))) (js ''SELECT'')"
  by (simp add: js_def trim_def is_whitespace_def ascii_upper_def startsWith_def)

text \<open>
  C1. A query whose text, trimmed and upper-cased, does not begin with
  \<^verbatim>\<open>SELECT\<close> is rejected with the safety error and the state, the trace of
  external calls included, is left as it was: no request is sent. A query that
  passes the test is not rejected by it: the call goes on to build the endpoint
  URL and, when that URL parses, sends the GET with the query text unchanged. The
  test passes whenever the trimmed text begins with the letters of
  \<^verbatim>\<open>SELECT\<close> in either case.
\<close>

theorem query_select_only:
  "(\<not> startsWith (toUpperCase env (trim q)) (js ''SELECT'') \<longrightarrow>
      query cfg env q fmt s =
        (Inl (Error (js ''Only SELECT queries are allowed for safety reasons'')), s))
   \<and> (startsWith (toUpperCase env (trim q)) (js ''SELECT'') \<longrightarrow>
        (if URL_parses env (exec_url cfg env)
         then snd (query cfg env q fmt s) =
                s\<lparr>trace := trace s @
                     [HttpGet (exec_request cfg env q
                        (case fmt of None \<Rightarrow> js ''json'' | Some f \<Rightarrow> f))]\<rparr>
         else query cfg env q fmt s = (Inl (TypeError (js ''Invalid URL'')), s)))
   \<and> (startsWith (map ascii_upper (trim q)) (js ''SELECT'') \<longrightarrow>
        startsWith (toUpperCase env (trim q)) (js ''SELECT''))"
proof (intro conjI impI)
  assume "\<not> startsWith (toUpperCase env (trim q)) (js ''SELECT'')"
  then show "query cfg env q fmt s =
      (Inl (Error (js ''Only SELECT queries are allowed for safety reasons'')), s)"
    by (rule query_rejected)
next
  assume sel: "startsWith (toUpperCase env (trim q)) (js ''SELECT'')"
  show "if URL_parses env (exec_url cfg env)
        then snd (query cfg env q fmt s) =
               s\<lparr>trace := trace s @
                    [HttpGet (exec_request cfg env q
                       (case fmt of None \<Rightarrow> js ''json'' | Some f \<Rightarrow> f))]\<rparr>
        else query cfg env q fmt s = (Inl (TypeError (js ''Invalid URL'')), s)"
    using sel by (simp add: query_sent query_bad_url)
next
  assume "startsWith (map ascii_upper (trim q)) (js ''SELECT'')"
  then show "startsWith (toUpperCase env (trim q)) (js ''SELECT'')"
    using select_ascii by (rule startsWith_upper)
qed

theorem query_select_only_witness:
  "query default_config (calm_env JNull) (js ''DROP TABLE trades'') None fresh_state =
     (Inl (Error (js ''Only SELECT queries are allowed for safety reasons'')), fresh_state)
   \<and> trace (snd (query default_config (calm_env JNull) (js ''  select 1 '') None fresh_state)) =
       [HttpGet (exec_request default_config (calm_env JNull) (js ''  select 1 '') (js ''json''))]
   \<and> startsWith (toUpperCase (calm_env JNull) (trim (js ''  select 1 ''))) (js ''SELECT'')"
proof -
  note a = query_select_only [of "calm_env JNull" "js ''DROP TABLE trades''" default_config
      None fresh_state]
  note b = query_select_only [of "calm_env JNull" "js ''  select 1 ''" default_config
      None fresh_state]
  have c: "startsWith (toUpperCase (calm_env JNull) (trim (js ''  select 1 ''))) (js ''SELECT'')"
    using b padded_select by blast
  have u: "URL_parses (calm_env JNull) (exec_url default_config (calm_env JNull))"
    by (simp add: calm_env_def)
  have "snd (query default_config (calm_env JNull) (js ''  select 1 '') None fresh_state) =
      fresh_state\<lparr>trace := trace fresh_state @
        [HttpGet (exec_request default_config (calm_env JNull) (js ''  select 1 '') (js ''json''))]\<rparr>"
    using b c u by simp
  then have d: "trace (snd (query default_config (calm_env JNull) (js ''  select 1 '') None
      fresh_state)) =
      [HttpGet (exec_request default_config (calm_env JNull) (js ''  select 1 '') (js ''json''))]"
    by (simp add: fresh_state_def)
  from a drop_not_select c d show ?thesis by blast
qed













subsection \<open>Running the effects\<close>

lemma bind_Inr: "fst (m s) = Inr x \<Longrightarrow> bind m f s = f x (snd (m s))"
  by (cases "m s") (simp add: bind_def)

lemma bind_Inl: "fst (m s) = Inl e \<Longrightarrow> bind m f s = (Inl e, snd (m s))"
  by (cases "m s") (simp add: bind_def)

lemma adapter_calls_append: "adapter_calls (a @ b) = adapter_calls a @ adapter_calls b"
  by (simp add: adapter_calls_def)

lemma adapter_calls_sender: "adapter_calls (map SenderCall cs) = map SenderCall cs"
  by (induction cs) (simp_all add: adapter_calls_def)

lemma adapter_calls_mem:
  "SenderCall c \<in> set evs \<Longrightarrow> SenderCall c \<in> set (adapter_calls evs)"
  by (simp add: adapter_calls_def)

lemma logger_info_run:
  "\<exists>logs. fst (logger_info env m s) = Inr ()
      \<and> sender (snd (logger_info env m s)) = sender s
      \<and> trace (snd (logger_info env m s)) = trace s @ logs
      \<and> adapter_calls logs = []"
proof (cases "isConnected env (trace s)")
  case False
  then have "fst (logger_info env m s) = Inr ()
      \<and> sender (snd (logger_info env m s)) = sender s
      \<and> trace (snd (logger_info env m s)) = trace s @ [ConsoleError (js ''[Info]'') (Msg m)]
      \<and> adapter_calls [ConsoleError (js ''[Info]'') (Msg m)] = []"
    by (simp add: logger_info_def try_catch_def console_error_def emit_def adapter_calls_def)
  then show ?thesis by blast
next
  case True
  show ?thesis
  proof (cases "sendLoggingMessage_throws env (trace s)")
    case None
    with True have "fst (logger_info env m s) = Inr ()
        \<and> sender (snd (logger_info env m s)) = sender s
        \<and> trace (snd (logger_info env m s)) = trace s @ [SendLoggingMessage Info m]
        \<and> adapter_calls [SendLoggingMessage Info m] = []"
      by (simp add: logger_info_def try_catch_def send_logging_message_def adapter_calls_def)
    then show ?thesis by blast
  next
    case (Some e)
    with True have "fst (logger_info env m s) = Inr ()
        \<and> sender (snd (logger_info env m s)) = sender s
        \<and> trace (snd (logger_info env m s)) =
            trace s @ [SendLoggingMessage Info m, ConsoleError (js ''[Info]'') (Msg m)]
        \<and> adapter_calls [SendLoggingMessage Info m, ConsoleError (js ''[Info]'') (Msg m)] = []"
      by (simp add: logger_info_def try_catch_def send_logging_message_def console_error_def
          emit_def adapter_calls_def)
    then show ?thesis by blast
  qed
qed

lemma logger_error_run:
  "\<exists>logs. fst (logger_error env m s) = Inr ()
      \<and> sender (snd (logger_error env m s)) = sender s
      \<and> trace (snd (logger_error env m s)) = trace s @ logs
      \<and> adapter_calls logs = []"
proof (cases "isConnected env (trace s)")
  case False
  then have "fst (logger_error env m s) = Inr ()
      \<and> sender (snd (logger_error env m s)) = sender s
      \<and> trace (snd (logger_error env m s)) = trace s @ [ConsoleError (js ''[Error]'') (Msg m)]
      \<and> adapter_calls [ConsoleError (js ''[Error]'') (Msg m)] = []"
    by (simp add: logger_error_def try_catch_def console_error_def emit_def adapter_calls_def)
  then show ?thesis by blast
next
  case True
  show ?thesis
  proof (cases "sendLoggingMessage_throws env (trace s)")
    case None
    with True have "fst (logger_error env m s) = Inr ()
        \<and> sender (snd (logger_error env m s)) = sender s
        \<and> trace (snd (logger_error env m s)) = trace s @ [SendLoggingMessage Err m]
        \<and> adapter_calls [SendLoggingMessage Err m] = []"
      by (simp add: logger_error_def try_catch_def send_logging_message_def adapter_calls_def)
    then show ?thesis by blast
  next
    case (Some e)
    with True have "fst (logger_error env m s) = Inr ()
        \<and> sender (snd (logger_error env m s)) = sender s
        \<and> trace (snd (logger_error env m s)) =
            trace s @ [SendLoggingMessage Err m, ConsoleError (js ''[Error]'') (Msg m)]
        \<and> adapter_calls [SendLoggingMessage Err m, ConsoleError (js ''[Error]'') (Msg m)] = []"
      by (simp add: logger_error_def try_catch_def send_logging_message_def console_error_def
          emit_def adapter_calls_def)
    then show ?thesis by blast
  qed
qed

lemma performs_ret: "performs env (ret x) []"
  unfolding performs_def
  by (intro allI, rule exI [of _ "[]"], rule exI [of _ "[]"], rule exI [of _ "[]"])
    (simp add: ret_def adapter_calls_def)

lemma performs_sender_do: "performs env (sender_do env c) [c]"
  unfolding performs_def
  by (intro allI, rule exI [of _ "[c]"], rule exI [of _ "[SenderCall c]"], rule exI [of _ "[]"])
    (auto simp add: sender_do_def adapter_calls_def split: option.splits)

lemma performs_bind:
  assumes m: "performs env m xs" and f: "\<And>x. performs env (f x) ys"
  shows "performs env (bind m f) (xs @ ys)"
  unfolding performs_def
proof
  fix s
  from m obtain cs evs rest where
    1: "xs = cs @ rest" "trace (snd (m s)) = trace s @ evs"
       "adapter_calls evs = map SenderCall cs" "sender (snd (m s)) = sender s"
    and c1: "case fst (m s) of Inr x \<Rightarrow> rest = []
             | Inl e \<Rightarrow> \<exists>tr c. sender_throws env tr c = Some e"
    unfolding performs_def by blast
  show "\<exists>cs evs rest.
          xs @ ys = cs @ rest
          \<and> trace (snd (bind m f s)) = trace s @ evs
          \<and> adapter_calls evs = map SenderCall cs
          \<and> sender (snd (bind m f s)) = sender s
          \<and> (case fst (bind m f s) of
               Inr x \<Rightarrow> rest = []
             | Inl e \<Rightarrow> \<exists>tr c. sender_throws env tr c = Some e)"
  proof (cases "fst (m s)")
    case (Inl e)
    then have b: "bind m f s = (Inl e, snd (m s))" by (rule bind_Inl)
    from Inl c1 have e: "\<exists>tr c. sender_throws env tr c = Some e" by simp
    show ?thesis
      apply (rule exI [of _ cs], rule exI [of _ evs], rule exI [of _ "rest @ ys"])
      using 1 b e apply simp
      done
  next
    case (Inr x)
    with c1 have r: "rest = []" by simp
    from Inr have b: "bind m f s = f x (snd (m s))" by (rule bind_Inr)
    from f [of x] obtain cs2 evs2 rest2 where
      2: "ys = cs2 @ rest2" "trace (snd (f x (snd (m s)))) = trace (snd (m s)) @ evs2"
         "adapter_calls evs2 = map SenderCall cs2"
         "sender (snd (f x (snd (m s)))) = sender (snd (m s))"
      and c2: "case fst (f x (snd (m s))) of Inr y \<Rightarrow> rest2 = []
               | Inl e \<Rightarrow> \<exists>tr c. sender_throws env tr c = Some e"
      unfolding performs_def by blast
    show ?thesis
      apply (rule exI [of _ "cs @ cs2"], rule exI [of _ "evs @ evs2"], rule exI [of _ rest2])
      using 1 2 r b c2 apply (simp add: adapter_calls_append)
      done
  qed
qed

lemma performs_add_columns:
  "performs env (add_columns env entries)
     (List.map_filter (\<lambda>(key, v). column_call env key v) entries)"
proof (induction entries)
  case Nil
  show ?case by (simp add: performs_ret)
next
  case (Cons a entries)
  obtain key v where a: "a = (key, v)" by (cases a)
  show ?case
  proof (cases "column_call env key v")
    case None
    with Cons a show ?thesis by simp
  next
    case (Some c)
    have "performs env (bind (sender_do env c) (\<lambda>u. add_columns env entries))
        ([c] @ List.map_filter (\<lambda>(key, v). column_call env key v) entries)"
      by (intro performs_bind performs_sender_do Cons.IH)
    with Some a show ?thesis by simp
  qed
qed

lemma performs_close_row:
  "performs env (close_row env ts) [if ts \<noteq> JUndefined then At ts (js ''ms'') else AtNow]"
  by (simp add: close_row_def performs_sender_do)

lemma performs_row:
  "performs env
     (bind (sender_do env (Table table))
        (\<lambda>u. bind (add_columns env (columnData data))
        (\<lambda>u. bind (close_row env (insert_timestamp env data))
        (\<lambda>u. sender_do env Flush))))
     (row_calls env table data)"
proof -
  have "performs env
     (bind (sender_do env (Table table))
        (\<lambda>u. bind (add_columns env (columnData data))
        (\<lambda>u. bind (close_row env (insert_timestamp env data))
        (\<lambda>u. sender_do env Flush))))
     ([Table table]
      @ (List.map_filter (\<lambda>(key, v). column_call env key v) (columnData data)
      @ ([if insert_timestamp env data \<noteq> JUndefined
          then At (insert_timestamp env data) (js ''ms'') else AtNow]
      @ [Flush])))"
    by (intro performs_bind performs_sender_do performs_add_columns performs_close_row)
  then show ?thesis by (simp add: row_calls_def)
qed

subsection \<open>getSender and insert\<close>

lemma getSender_present: "sender s = Some sd \<Longrightarrow> getSender cfg env s = (Inr sd, s)"
  by (simp add: getSender_def)

lemma getSender_fails:
  "sender s = None \<Longrightarrow>
   sender_throws env (trace s) (FromConfig (buildConfigString cfg env)) = Some e \<Longrightarrow>
   fst (getSender cfg env s) = Inl e
   \<and> sender (snd (getSender cfg env s)) = None
   \<and> trace (snd (getSender cfg env s)) =
       trace s @ [SenderCall (FromConfig (buildConfigString cfg env))]"
  by (simp add: getSender_def Let_def bind_def sender_do_def)

lemma getSender_creates:
  assumes "sender s = None"
    and "sender_throws env (trace s) (FromConfig (buildConfigString cfg env)) = None"
  shows "\<exists>logs. fst (getSender cfg env s) = Inr (count_senders (trace s))
      \<and> sender (snd (getSender cfg env s)) = Some (count_senders (trace s))
      \<and> trace (snd (getSender cfg env s)) =
          trace s @ SenderCall (FromConfig (buildConfigString cfg env)) # logs
      \<and> adapter_calls logs = []"
proof -
  let ?s1 = "s\<lparr>trace := trace s @ [SenderCall (FromConfig (buildConfigString cfg env))],
               sender := Some (count_senders (trace s))\<rparr>"
  obtain logs where l: "fst (logger_info env (js ''QuestDB sender initialized'') ?s1) = Inr ()"
    "sender (snd (logger_info env (js ''QuestDB sender initialized'') ?s1)) = sender ?s1"
    "trace (snd (logger_info env (js ''QuestDB sender initialized'') ?s1)) = trace ?s1 @ logs"
    "adapter_calls logs = []"
    using logger_info_run [of env "js ''QuestDB sender initialized''" ?s1] by blast
  have g: "getSender cfg env s =
      bind (try_catch (logger_info env (js ''QuestDB sender initialized'')) (\<lambda>e. ret ()))
        (\<lambda>u. ret (count_senders (trace s))) ?s1"
    using assms by (simp add: getSender_def Let_def bind_def sender_do_def)
  have t: "try_catch (logger_info env (js ''QuestDB sender initialized'')) (\<lambda>e. ret ()) ?s1 =
      logger_info env (js ''QuestDB sender initialized'') ?s1"
    using l(1)
    by (cases "logger_info env (js ''QuestDB sender initialized'') ?s1")
      (simp add: try_catch_def)
  have g2: "getSender cfg env s =
      (case logger_info env (js ''QuestDB sender initialized'') ?s1 of
         (Inl e, s') \<Rightarrow> (Inl e, s')
       | (Inr x, s') \<Rightarrow> ret (count_senders (trace s)) s')"
    unfolding g by (simp add: bind_def t)
  have "getSender cfg env s =
      (Inr (count_senders (trace s)),
       snd (logger_info env (js ''QuestDB sender initialized'') ?s1))"
    using l(1) unfolding g2
    by (cases "logger_info env (js ''QuestDB sender initialized'') ?s1")
      (simp add: ret_def)
  with l have "fst (getSender cfg env s) = Inr (count_senders (trace s))
      \<and> sender (snd (getSender cfg env s)) = Some (count_senders (trace s))
      \<and> trace (snd (getSender cfg env s)) =
          trace s @ SenderCall (FromConfig (buildConfigString cfg env)) # logs
      \<and> adapter_calls logs = []"
    by simp
  then show ?thesis by blast
qed

lemma insert_row_calls:
  "\<exists>cs evs rest.
     row_calls env table data = cs @ rest
     \<and> trace (snd (insert_row cfg env table data s)) = trace s @ evs
     \<and> adapter_calls evs =
         map SenderCall
           ((if sender s = None then [FromConfig (buildConfigString cfg env)] else []) @ cs)
     \<and> (case fst (insert_row cfg env table data s) of
          Inr u \<Rightarrow> rest = [] \<and> sender (snd (insert_row cfg env table data s)) \<noteq> None
        | Inl e \<Rightarrow> \<exists>tr c. sender_throws env tr c = Some e)"
proof -
  let ?body = "\<lambda>sd::nat. bind (sender_do env (Table table))
        (\<lambda>u. bind (add_columns env (columnData data))
        (\<lambda>u. bind (close_row env (insert_timestamp env data))
        (\<lambda>u. sender_do env Flush)))"
  let ?conf = "FromConfig (buildConfigString cfg env)"
  have ins: "insert_row cfg env table data s = bind (getSender cfg env) ?body s"
    by (simp add: insert_row_def)
  have pb: "\<And>s1. \<exists>cs evs rest.
        row_calls env table data = cs @ rest
        \<and> trace (snd (?body 0 s1)) = trace s1 @ evs
        \<and> adapter_calls evs = map SenderCall cs
        \<and> sender (snd (?body 0 s1)) = sender s1
        \<and> (case fst (?body 0 s1) of
             Inr x \<Rightarrow> rest = []
           | Inl e \<Rightarrow> \<exists>tr c. sender_throws env tr c = Some e)"
    using performs_row [of env table data] unfolding performs_def by blast
  show ?thesis
  proof (cases "sender s")
    case (Some sd)
    then have i: "insert_row cfg env table data s = ?body 0 s"
      by (simp add: ins bind_def getSender_present)
    from pb [of s] obtain cs evs rest where
      1: "row_calls env table data = cs @ rest" "trace (snd (?body 0 s)) = trace s @ evs"
         "adapter_calls evs = map SenderCall cs" "sender (snd (?body 0 s)) = sender s"
      and c: "case fst (?body 0 s) of Inr x \<Rightarrow> rest = []
              | Inl e \<Rightarrow> \<exists>tr c. sender_throws env tr c = Some e"
      by blast
    show ?thesis
      apply (rule exI [of _ cs], rule exI [of _ evs], rule exI [of _ rest])
      using 1 c Some unfolding i apply (simp split: sum.splits)
      done
  next
    case None
    show ?thesis
    proof (cases "sender_throws env (trace s) ?conf")
      case (Some e)
      from getSender_fails [OF None Some]
      have g: "fst (getSender cfg env s) = Inl e"
        "trace (snd (getSender cfg env s)) = trace s @ [SenderCall ?conf]"
        by simp_all
      from g(1) have i: "insert_row cfg env table data s = (Inl e, snd (getSender cfg env s))"
        unfolding ins by (rule bind_Inl)
      have e: "\<exists>tr c. sender_throws env tr c = Some e" using Some by blast
      show ?thesis
        apply (rule exI [of _ "[]"], rule exI [of _ "[SenderCall ?conf]"],
            rule exI [of _ "row_calls env table data"])
        using g e None unfolding i apply (simp add: adapter_calls_def)
        done
    next
      case nothrow: None
      from getSender_creates [OF None nothrow] obtain logs where
        g: "fst (getSender cfg env s) = Inr (count_senders (trace s))"
           "sender (snd (getSender cfg env s)) = Some (count_senders (trace s))"
           "trace (snd (getSender cfg env s)) = trace s @ SenderCall ?conf # logs"
           "adapter_calls logs = []"
        by blast
      from g(1) have i: "insert_row cfg env table data s = ?body 0 (snd (getSender cfg env s))"
        unfolding ins by (rule bind_Inr)
      from pb [of "snd (getSender cfg env s)"] obtain cs evs rest where
        1: "row_calls env table data = cs @ rest"
           "trace (snd (?body 0 (snd (getSender cfg env s)))) =
              trace (snd (getSender cfg env s)) @ evs"
           "adapter_calls evs = map SenderCall cs"
           "sender (snd (?body 0 (snd (getSender cfg env s)))) =
              sender (snd (getSender cfg env s))"
        and c: "case fst (?body 0 (snd (getSender cfg env s))) of Inr x \<Rightarrow> rest = []
                | Inl e \<Rightarrow> \<exists>tr c. sender_throws env tr c = Some e"
        by blast
      show ?thesis
        apply (rule exI [of _ cs], rule exI [of _ "SenderCall ?conf # logs @ evs"],
            rule exI [of _ rest])
        using 1 c g None unfolding i
        apply (simp add: adapter_calls_def split: sum.splits)
        done
    qed
  qed
qed

lemma insert_row_succeeds:
  assumes "\<forall>tr c. sender_throws env tr c = None"
  shows "fst (insert_row cfg env table data s) = Inr ()"
proof (cases "fst (insert_row cfg env table data s)")
  case (Inl e)
  with insert_row_calls [of env table data cfg s]
  have "\<exists>tr c. sender_throws env tr c = Some e" by auto
  with assms show ?thesis by simp
next
  case (Inr u)
  then show ?thesis by simp
qed


lemma column_call_Some:
  "column_call env k y = Some c \<Longrightarrow>
   column_name c = Some k \<and> y \<noteq> JNull \<and> y \<noteq> JUndefined
   \<and> (\<forall>k' x. c \<noteq> StringColumn k' x) \<and> (\<forall>k' x. c \<noteq> TimestampColumn k' x)"
  by (auto simp add: column_call_def split: if_splits)

lemma map_filter_mem:
  "c \<in> set (List.map_filter f xs) \<Longrightarrow> \<exists>x \<in> set xs. f x = Some c"
  by (induction xs) (auto split: option.splits)

lemma row_calls_column:
  assumes "c \<in> set (row_calls env table data)" and "column_name c = Some k"
  shows "k \<noteq> js ''timestamp''
     \<and> (\<exists>y. (k, y) \<in> set data \<and> y \<noteq> JNull \<and> y \<noteq> JUndefined \<and> column_call env k y = Some c)"
proof -
  from assms have "c \<in> set (List.map_filter (\<lambda>(key, v). column_call env key v) (columnData data))"
    by (auto simp add: row_calls_def split: if_splits)
  then obtain e where e: "e \<in> set (columnData data)"
    "(\<lambda>(key, v). column_call env key v) e = Some c"
    by (blast dest: map_filter_mem)
  obtain k' y where ky: "e = (k', y)" by (cases e)
  with e(2) have cc: "column_call env k' y = Some c" by simp
  with assms(2) have "k' = k" by (auto dest: column_call_Some)
  with e(1) ky cc show ?thesis
    by (auto simp add: columnData_def dest: column_call_Some)
qed




lemma calm_never_throws: "\<forall>tr c. sender_throws (calm_env a) tr c = None"
  by (simp add: calm_env_def)

lemma floor_three_halves: "\<lfloor>3 / 2 :: rat\<rfloor> = 1"
  by (simp add: floor_eq_iff)

lemma sample_row_calls:
  "row_calls (calm_env a) (js ''trades'') sample_row =
     [Table (js ''trades''),
      Symbol (js ''a'') (JStr (js ''x'')),
      IntColumn (js ''b'') (JNum (Fin 1)),
      FloatColumn (js ''b2'') (JNum (Fin (3 / 2))),
      BooleanColumn (js ''c'') (JBool True),
      At (JNum (Fin 1699123456789)) (js ''ms''),
      Flush]"
  by (simp add: row_calls_def sample_row_def columnData_def column_call_def insert_timestamp_def
      Number_isInteger_def floor_three_halves js_def)


subsection \<open>The columns of a row\<close>




lemma columnData_no_timestamp: "map_of (columnData data) (js ''timestamp'') = None"
  by (induction data) (auto simp add: columnData_def)

text \<open>
  C5. An entry whose value is \<^verbatim>\<open>null\<close> or \<^verbatim>\<open>undefined\<close> makes no sender
  call; the entries the loop runs over have no key \<^verbatim>\<open>timestamp\<close>; and every
  column call that an insert makes, whether it completes or fails, names a key
  other than \<^verbatim>\<open>timestamp\<close> whose value in the record is neither
  \<^verbatim>\<open>null\<close> nor \<^verbatim>\<open>undefined\<close>.
\<close>

theorem insert_skips:
  "(v = JNull \<or> v = JUndefined \<longrightarrow> column_call env key v = None)
   \<and> map_of (columnData data) (js ''timestamp'') = None
   \<and> (\<exists>evs. trace (snd (insert_row cfg env table data s)) = trace s @ evs
        \<and> (\<forall>c k. SenderCall c \<in> set evs \<and> column_name c = Some k \<longrightarrow>
              k \<noteq> js ''timestamp''
              \<and> (\<exists>y. (k, y) \<in> set data \<and> y \<noteq> JNull \<and> y \<noteq> JUndefined
                     \<and> column_call env k y = Some c)))"
proof (intro conjI)
  show "v = JNull \<or> v = JUndefined \<longrightarrow> column_call env key v = None"
    by (auto simp add: column_call_def)
  show "map_of (columnData data) (js ''timestamp'') = None"
    by (rule columnData_no_timestamp)
  from insert_row_calls [of env table data cfg s] obtain cs evs rest where
    1: "row_calls env table data = cs @ rest"
       "trace (snd (insert_row cfg env table data s)) = trace s @ evs"
       "adapter_calls evs =
          map SenderCall
            ((if sender s = None then [FromConfig (buildConfigString cfg env)] else []) @ cs)"
    by blast
  have "\<forall>c k. SenderCall c \<in> set evs \<and> column_name c = Some k \<longrightarrow>
      k \<noteq> js ''timestamp''
      \<and> (\<exists>y. (k, y) \<in> set data \<and> y \<noteq> JNull \<and> y \<noteq> JUndefined \<and> column_call env k y = Some c)"
  proof (intro allI impI)
    fix c k
    assume a: "SenderCall c \<in> set evs \<and> column_name c = Some k"
    then have "SenderCall c \<in> set (adapter_calls evs)" by (simp add: adapter_calls_mem)
    with 1(3) have "c = FromConfig (buildConfigString cfg env) \<or> c \<in> set cs"
      by (auto split: if_splits)
    with a have "c \<in> set cs" by auto
    with 1(1) have "c \<in> set (row_calls env table data)" by simp
    with a show "k \<noteq> js ''timestamp''
      \<and> (\<exists>y. (k, y) \<in> set data \<and> y \<noteq> JNull \<and> y \<noteq> JUndefined \<and> column_call env k y = Some c)"
      by (simp add: row_calls_column)
  qed
  with 1(2) show "\<exists>evs. trace (snd (insert_row cfg env table data s)) = trace s @ evs
        \<and> (\<forall>c k. SenderCall c \<in> set evs \<and> column_name c = Some k \<longrightarrow>
              k \<noteq> js ''timestamp''
              \<and> (\<exists>y. (k, y) \<in> set data \<and> y \<noteq> JNull \<and> y \<noteq> JUndefined
                     \<and> column_call env k y = Some c))"
    by blast
qed

theorem insert_skips_witness:
  "column_call (calm_env JNull) (js ''n'') JNull = None
   \<and> SenderCall (IntColumn (js ''timestamp'') (JNum (Fin 1699123456789))) \<notin>
       set (trace (snd (insert_row default_config (calm_env JNull) (js ''trades'') sample_row
         fresh_state)))
   \<and> SenderCall (Symbol (js ''n'') JNull) \<notin>
       set (trace (snd (insert_row default_config (calm_env JNull) (js ''trades'') sample_row
         fresh_state)))"
proof -
  note t = insert_skips [where v = JNull and env = "calm_env JNull" and key = "js ''n''"
      and data = sample_row and cfg = default_config and table = "js ''trades''"
      and s = fresh_state]
  from t have a: "column_call (calm_env JNull) (js ''n'') JNull = None" by simp
  from t obtain evs where
    e: "trace (snd (insert_row default_config (calm_env JNull) (js ''trades'') sample_row
          fresh_state)) = trace fresh_state @ evs"
    and h: "\<forall>c k. SenderCall c \<in> set evs \<and> column_name c = Some k \<longrightarrow>
        k \<noteq> js ''timestamp''
        \<and> (\<exists>y. (k, y) \<in> set sample_row \<and> y \<noteq> JNull \<and> y \<noteq> JUndefined
               \<and> column_call (calm_env JNull) k y = Some c)"
    by blast
  have b: "SenderCall (IntColumn (js ''timestamp'') (JNum (Fin 1699123456789))) \<notin>
       set (trace (snd (insert_row default_config (calm_env JNull) (js ''trades'') sample_row
         fresh_state)))"
  proof
    assume "SenderCall (IntColumn (js ''timestamp'') (JNum (Fin 1699123456789))) \<in>
       set (trace (snd (insert_row default_config (calm_env JNull) (js ''trades'') sample_row
         fresh_state)))"
    with e have "SenderCall (IntColumn (js ''timestamp'') (JNum (Fin 1699123456789))) \<in> set evs"
      by (simp add: fresh_state_def)
    with h [rule_format, of "IntColumn (js ''timestamp'') (JNum (Fin 1699123456789))"
        "js ''timestamp''"]
    show False by simp
  qed
  have c: "SenderCall (Symbol (js ''n'') JNull) \<notin>
       set (trace (snd (insert_row default_config (calm_env JNull) (js ''trades'') sample_row
         fresh_state)))"
  proof
    assume "SenderCall (Symbol (js ''n'') JNull) \<in>
       set (trace (snd (insert_row default_config (calm_env JNull) (js ''trades'') sample_row
         fresh_state)))"
    with e have "SenderCall (Symbol (js ''n'') JNull) \<in> set evs"
      by (simp add: fresh_state_def)
    with h [rule_format, of "Symbol (js ''n'') JNull" "js ''n''"]
    have "\<exists>y. y \<noteq> JNull \<and> y \<noteq> JUndefined
        \<and> column_call (calm_env JNull) (js ''n'') y = Some (Symbol (js ''n'') JNull)"
      by auto
    then show False by (auto simp add: column_call_def split: if_splits)
  qed
  from a b c show ?thesis by blast
qed

subsection \<open>The timestamp of a row\<close>







subsection \<open>close\<close>

lemma try_catch_Inl: "fst (m s) = Inl e \<Longrightarrow> try_catch m h s = h e (snd (m s))"
  by (cases "m s") (simp add: try_catch_def)

lemma try_catch_Inr: "fst (m s) = Inr x \<Longrightarrow> try_catch m h s = (Inr x, snd (m s))"
  by (cases "m s") (simp add: try_catch_def)

lemma close_absent: "sender s = None \<Longrightarrow> close env s = (Inr (), s)"
  by (simp add: close_def)

lemma close_run: "fst (close env s) = Inr () \<and> sender (snd (close env s)) = None"
proof (cases "sender s")
  case None
  then show ?thesis by (simp add: close_def)
next
  case (Some sd)
  let ?tc = "try_catch (flush_and_close env)
      (\<lambda>error. console_error (js ''Error closing QuestDB connection:'') (Caught error))"
  have "fst (?tc s) = Inr ()"
    by (cases "flush_and_close env s")
      (auto simp add: try_catch_def console_error_def emit_def split: sum.splits)
  then have "bind ?tc (\<lambda>u s1. (Inr (), s1\<lparr>sender := None\<rparr>)) s =
      (Inr (), (snd (?tc s))\<lparr>sender := None\<rparr>)"
    by (rule bind_Inr)
  with Some show ?thesis by (simp add: close_def)
qed

lemma close_flush_fails:
  "sender s = Some sd \<Longrightarrow> sender_throws env (trace s) Flush = Some e \<Longrightarrow>
   trace (snd (close env s)) =
     trace s @ [SenderCall Flush,
                ConsoleError (js ''Error closing QuestDB connection:'') (Caught e)]"
  by (simp add: close_def flush_and_close_def bind_def try_catch_def sender_do_def
      console_error_def emit_def)

lemma close_close_fails:
  "sender s = Some sd \<Longrightarrow> sender_throws env (trace s) Flush = None \<Longrightarrow>
   sender_throws env (trace s @ [SenderCall Flush]) Close = Some e \<Longrightarrow>
   trace (snd (close env s)) =
     trace s @ [SenderCall Flush, SenderCall Close,
                ConsoleError (js ''Error closing QuestDB connection:'') (Caught e)]"
  by (simp add: close_def flush_and_close_def bind_def try_catch_def sender_do_def
      console_error_def emit_def)

lemma insert_after_none:
  assumes "sender s = None"
  shows "\<exists>cs evs.
      trace (snd (insert_row cfg env table data s)) = trace s @ evs
      \<and> adapter_calls evs = SenderCall (FromConfig (buildConfigString cfg env)) # map SenderCall cs"
proof -
  from insert_row_calls [of env table data cfg s] obtain cs evs rest where
    "trace (snd (insert_row cfg env table data s)) = trace s @ evs"
    "adapter_calls evs =
       map SenderCall
         ((if sender s = None then [FromConfig (buildConfigString cfg env)] else []) @ cs)"
    by blast
  with assms have "trace (snd (insert_row cfg env table data s)) = trace s @ evs
      \<and> adapter_calls evs = SenderCall (FromConfig (buildConfigString cfg env)) # map SenderCall cs"
    by simp
  then show ?thesis by blast
qed

lemma insert_leaves_sender:
  assumes "fst (insert_row cfg env table data s) = Inr u"
  shows "sender (snd (insert_row cfg env table data s)) \<noteq> None"
  using insert_row_calls [of env table data cfg s] assms by auto

text \<open>
  C8. \<^verbatim>\<open>close\<close> never throws and always leaves the sender field absent, so a
  second \<^verbatim>\<open>close\<close> right after it does nothing at all and returns normally.
  When the flush or the close of the sender throws, the error is written to the
  console and nothing else happens. An insert after \<^verbatim>\<open>close\<close> starts by
  creating a sender from the connection string, and when it completes the
  sender field is present again.
\<close>

theorem close_idempotent:
  "fst (close env s) = Inr ()
   \<and> sender (snd (close env s)) = None
   \<and> close env (snd (close env s)) = (Inr (), snd (close env s))
   \<and> (sender s = Some sd \<and> sender_throws env (trace s) Flush = Some e \<longrightarrow>
        trace (snd (close env s)) =
          trace s @ [SenderCall Flush,
                     ConsoleError (js ''Error closing QuestDB connection:'') (Caught e)])
   \<and> (sender s = Some sd \<and> sender_throws env (trace s) Flush = None
        \<and> sender_throws env (trace s @ [SenderCall Flush]) Close = Some e \<longrightarrow>
        trace (snd (close env s)) =
          trace s @ [SenderCall Flush, SenderCall Close,
                     ConsoleError (js ''Error closing QuestDB connection:'') (Caught e)])
   \<and> (\<exists>cs evs.
         trace (snd (insert_row cfg env table data (snd (close env s)))) =
           trace (snd (close env s)) @ evs
         \<and> adapter_calls evs =
             SenderCall (FromConfig (buildConfigString cfg env)) # map SenderCall cs)
   \<and> (\<forall>u. fst (insert_row cfg env table data (snd (close env s))) = Inr u \<longrightarrow>
          sender (snd (insert_row cfg env table data (snd (close env s)))) \<noteq> None)"
proof (intro conjI allI impI)
  show "fst (close env s) = Inr ()" by (simp add: close_run)
  show n: "sender (snd (close env s)) = None" by (simp add: close_run)
  from n show "close env (snd (close env s)) = (Inr (), snd (close env s))"
    by (rule close_absent)
  from n show "\<exists>cs evs.
         trace (snd (insert_row cfg env table data (snd (close env s)))) =
           trace (snd (close env s)) @ evs
         \<and> adapter_calls evs =
             SenderCall (FromConfig (buildConfigString cfg env)) # map SenderCall cs"
    by (rule insert_after_none)
next
  assume "sender s = Some sd \<and> sender_throws env (trace s) Flush = Some e"
  then show "trace (snd (close env s)) =
      trace s @ [SenderCall Flush,
                 ConsoleError (js ''Error closing QuestDB connection:'') (Caught e)]"
    by (simp add: close_flush_fails)
next
  assume "sender s = Some sd \<and> sender_throws env (trace s) Flush = None
    \<and> sender_throws env (trace s @ [SenderCall Flush]) Close = Some e"
  then show "trace (snd (close env s)) =
      trace s @ [SenderCall Flush, SenderCall Close,
                 ConsoleError (js ''Error closing QuestDB connection:'') (Caught e)]"
    by (simp add: close_close_fails)
next
  fix u
  assume "fst (insert_row cfg env table data (snd (close env s))) = Inr u"
  then show "sender (snd (insert_row cfg env table data (snd (close env s)))) \<noteq> None"
    by (rule insert_leaves_sender)
qed

theorem close_idempotent_witness:
  "fst (close flush_fails_env connected_state) = Inr ()
   \<and> sender (snd (close flush_fails_env connected_state)) = None
   \<and> trace (snd (close flush_fails_env connected_state)) =
       [SenderCall (FromConfig (js ''http::addr=localhost:9000'')),
        SenderCall Flush,
        ConsoleError (js ''Error closing QuestDB connection:'')
          (Caught (Error (js ''connection refused'')))]
   \<and> close flush_fails_env (snd (close flush_fails_env connected_state)) =
       (Inr (), snd (close flush_fails_env connected_state))
   \<and> trace (snd (close close_fails_env connected_state)) =
       [SenderCall (FromConfig (js ''http::addr=localhost:9000'')),
        SenderCall Flush,
        SenderCall Close,
        ConsoleError (js ''Error closing QuestDB connection:'')
          (Caught (Error (js ''socket hang up'')))]
   \<and> sender (snd (insert_row default_config (calm_env JNull) (js ''trades'') sample_row
        (snd (close (calm_env JNull) connected_state)))) \<noteq> None"
proof -
  note t3 = close_idempotent [where env = close_fails_env and s = connected_state and sd = 0
      and e = "Error (js ''socket hang up'')" and cfg = default_config
      and table = "js ''trades''" and data = sample_row]
  have h3: "sender connected_state = Some 0
      \<and> sender_throws close_fails_env (trace connected_state) Flush = None
      \<and> sender_throws close_fails_env (trace connected_state @ [SenderCall Flush]) Close =
          Some (Error (js ''socket hang up''))"
    by (simp add: connected_state_def close_fails_env_def calm_env_def)
  with t3 have "trace (snd (close close_fails_env connected_state)) =
      trace connected_state @ [SenderCall Flush, SenderCall Close,
        ConsoleError (js ''Error closing QuestDB connection:'')
          (Caught (Error (js ''socket hang up'')))]"
    by blast
  then have a3: "trace (snd (close close_fails_env connected_state)) =
       [SenderCall (FromConfig (js ''http::addr=localhost:9000'')),
        SenderCall Flush,
        SenderCall Close,
        ConsoleError (js ''Error closing QuestDB connection:'')
          (Caught (Error (js ''socket hang up'')))]"
    by (simp add: connected_state_def)
  note t = close_idempotent [where env = flush_fails_env and s = connected_state and sd = 0
      and e = "Error (js ''connection refused'')" and cfg = default_config
      and table = "js ''trades''" and data = sample_row]
  note t2 = close_idempotent [where env = "calm_env JNull" and s = connected_state and sd = 0
      and e = "Error (js ''connection refused'')" and cfg = default_config
      and table = "js ''trades''" and data = sample_row]
  have h: "sender connected_state = Some 0
      \<and> sender_throws flush_fails_env (trace connected_state) Flush =
          Some (Error (js ''connection refused''))"
    by (simp add: connected_state_def flush_fails_env_def)
  with t have "trace (snd (close flush_fails_env connected_state)) =
      trace connected_state @ [SenderCall Flush,
        ConsoleError (js ''Error closing QuestDB connection:'')
          (Caught (Error (js ''connection refused'')))]"
    by blast
  then have a: "trace (snd (close flush_fails_env connected_state)) =
       [SenderCall (FromConfig (js ''http::addr=localhost:9000'')),
        SenderCall Flush,
        ConsoleError (js ''Error closing QuestDB connection:'')
          (Caught (Error (js ''connection refused'')))]"
    by (simp add: connected_state_def)
  have "fst (insert_row default_config (calm_env JNull) (js ''trades'') sample_row
      (snd (close (calm_env JNull) connected_state))) = Inr ()"
    using calm_never_throws by (rule insert_row_succeeds)
  with t2 have b: "sender (snd (insert_row default_config (calm_env JNull) (js ''trades'')
      sample_row (snd (close (calm_env JNull) connected_state)))) \<noteq> None"
    by blast
  from t a a3 b show ?thesis by blast
qed

subsection \<open>listTables\<close>

lemma get_index0_defined:
  "row \<noteq> JNull \<Longrightarrow> row \<noteq> JUndefined \<Longrightarrow> get_index0 row = Inr (first_cell row)"
  by (cases row) (simp_all add: first_cell_def)

lemma first_cells_map:
  "\<forall>row \<in> set rows. row \<noteq> JNull \<and> row \<noteq> JUndefined \<Longrightarrow>
   first_cells rows = Inr (map first_cell rows)"
  by (induction rows) (simp_all add: get_index0_defined)

lemma listTables_run:
  "query cfg env (js ''SELECT table_name FROM tables() ORDER BY table_name'')
     (Some (js ''json'')) s = (Inr result, s') \<Longrightarrow>
   listTables cfg env s = (listTables_result result, s')"
  by (simp add: listTables_def bind_def await_def)

lemma listTables_query_select:
  "startsWith
     (toUpperCase env (trim (js ''SELECT table_name FROM tables() ORDER BY table_name'')))
     (js ''SELECT'')"
proof -
  have t: "trim (js ''SELECT table_name FROM tables() ORDER BY table_name'') =
      js ''SELECT table_name FROM tables() ORDER BY table_name''"
    by (rule trim_id) (simp_all add: js_def is_whitespace_def)
  have "startsWith (map ascii_upper (js ''SELECT table_name FROM tables() ORDER BY table_name''))
      (js ''SELECT'')"
    by (simp add: js_def startsWith_def ascii_upper_def)
  then show ?thesis
    using select_ascii by (simp add: t startsWith_upper)
qed

lemma select_1: "startsWith (toUpperCase env (trim (js ''SELECT 1''))) (js ''SELECT'')"
proof -
  have t: "trim (js ''SELECT 1'') = js ''SELECT 1''"
    by (rule trim_id) (simp_all add: js_def is_whitespace_def)
  have "startsWith (map ascii_upper (js ''SELECT 1'')) (js ''SELECT'')"
    by (simp add: js_def startsWith_def ascii_upper_def)
  then show ?thesis
    using select_ascii by (simp add: t startsWith_upper)
qed

lemma calm_query:
  assumes "startsWith (toUpperCase (calm_env a) (trim q)) (js ''SELECT'')"
  shows "query cfg (calm_env a) q (Some (js ''json'')) s =
     (Inr a, s\<lparr>trace := trace s @ [HttpGet (exec_request cfg (calm_env a) q (js ''json''))]\<rparr>)"
proof -
  have "URL_parses (calm_env a) (exec_url cfg (calm_env a))"
    by (simp add: calm_env_def)
  moreover have "fetch (calm_env a) (trace s) (exec_request cfg (calm_env a) q (js ''json'')) =
      Inr (ok_response a)"
    by (simp add: calm_env_def)
  ultimately show ?thesis
    using assms
    by (simp add: query_def Let_def bind_def do_fetch_def await_def ok_response_def)
qed

lemma null_row_result:
  "listTables_result null_row_answer = Inl (cannot_read (js ''null'') (js ''0''))"
  by (simp add: listTables_result_def null_row_answer_def Array_isArray_def first_cell_def)

lemma null_row_listTables:
  "fst (listTables default_config (calm_env null_row_answer) fresh_state) =
     Inl (cannot_read (js ''null'') (js ''0''))"
proof -
  have "query default_config (calm_env null_row_answer)
      (js ''SELECT table_name FROM tables() ORDER BY table_name'') (Some (js ''json''))
      fresh_state =
      (Inr null_row_answer,
       fresh_state\<lparr>trace := trace fresh_state @
         [HttpGet (exec_request default_config (calm_env null_row_answer)
            (js ''SELECT table_name FROM tables() ORDER BY table_name'') (js ''json''))]\<rparr>)"
    using listTables_query_select by (rule calm_query)
  then have "listTables default_config (calm_env null_row_answer) fresh_state =
      (listTables_result null_row_answer,
       fresh_state\<lparr>trace := trace fresh_state @
         [HttpGet (exec_request default_config (calm_env null_row_answer)
            (js ''SELECT table_name FROM tables() ORDER BY table_name'') (js ''json''))]\<rparr>)"
    by (rule listTables_run)
  then show ?thesis by (simp add: null_row_result)
qed

text \<open>
  C6 as stated fails for an array with a row that is \<^verbatim>\<open>null\<close>: for the
  answer \<^verbatim>\<open>{dataset: [["trades"], null]}\<close> the projection \<^verbatim>\<open>row[0]\<close> throws
  a \<^verbatim>\<open>TypeError\<close> and so does \<^verbatim>\<open>listTables\<close>.
\<close>

theorem listTables_projects_counterexample:
  "get_member null_row_answer (js ''dataset'') = Inr (JArr [JArr [JStr (js ''trades'')], JNull])
   \<and> listTables_result null_row_answer = Inl (cannot_read (js ''null'') (js ''0''))
   \<and> fst (listTables default_config (calm_env null_row_answer) fresh_state) =
       Inl (cannot_read (js ''null'') (js ''0''))"
proof -
  have "get_member null_row_answer (js ''dataset'') =
      Inr (JArr [JArr [JStr (js ''trades'')], JNull])"
    by (simp add: null_row_answer_def)
  with null_row_result null_row_listTables show ?thesis by blast
qed

text \<open>
  C6, amended. \<^verbatim>\<open>listTables\<close> applies \<open>listTables_result\<close> to the result of
  its query. A result that is falsy, or whose \<^verbatim>\<open>dataset\<close> is absent or not an
  array, gives the empty list and no error. A result whose \<^verbatim>\<open>dataset\<close> is an
  array of rows none of which is \<^verbatim>\<open>null\<close> or \<^verbatim>\<open>undefined\<close> gives the first
  cell of each row, in the order of the rows and as many as there are rows; the
  first cell of a row that is a non-empty array is its first element.
\<close>

theorem listTables_projects:
  "(query cfg env (js ''SELECT table_name FROM tables() ORDER BY table_name'')
      (Some (js ''json'')) s = (Inr result, s') \<longrightarrow>
      listTables cfg env s = (listTables_result result, s'))
   \<and> (\<not> truthy result \<longrightarrow> listTables_result result = Inr [])
   \<and> (get_member result (js ''dataset'') = Inr dataset \<and> \<not> Array_isArray dataset \<longrightarrow>
        listTables_result result = Inr [])
   \<and> (get_member result (js ''dataset'') = Inr (JArr rows)
        \<and> (\<forall>row \<in> set rows. row \<noteq> JNull \<and> row \<noteq> JUndefined) \<longrightarrow>
        listTables_result result = Inr (map first_cell rows)
        \<and> length (map first_cell rows) = length rows)
   \<and> first_cell (JArr (x # xs)) = x"
proof (intro conjI impI)
  assume "query cfg env (js ''SELECT table_name FROM tables() ORDER BY table_name'')
      (Some (js ''json'')) s = (Inr result, s')"
  then show "listTables cfg env s = (listTables_result result, s')"
    by (rule listTables_run)
next
  assume "\<not> truthy result"
  then show "listTables_result result = Inr []"
    by (simp add: listTables_result_def)
next
  assume "get_member result (js ''dataset'') = Inr dataset \<and> \<not> Array_isArray dataset"
  then show "listTables_result result = Inr []"
    by (simp add: listTables_result_def)
next
  assume a: "get_member result (js ''dataset'') = Inr (JArr rows)
        \<and> (\<forall>row \<in> set rows. row \<noteq> JNull \<and> row \<noteq> JUndefined)"
  then have "truthy result"
    by (cases result) (auto split: if_splits)
  with a show "listTables_result result = Inr (map first_cell rows)"
    by (simp add: listTables_result_def Array_isArray_def first_cells_map)
  show "length (map first_cell rows) = length rows" by simp
next
  show "first_cell (JArr (x # xs)) = x" by (simp add: first_cell_def)
qed

theorem listTables_projects_witness:
  "listTables default_config (calm_env two_tables_answer) fresh_state =
     (Inr [JStr (js ''quotes''), JStr (js ''trades'')],
      fresh_state\<lparr>trace := trace fresh_state @
        [HttpGet (exec_request default_config (calm_env two_tables_answer)
           (js ''SELECT table_name FROM tables() ORDER BY table_name'') (js ''json''))]\<rparr>)
   \<and> listTables_result JNull = Inr []
   \<and> listTables_result (JObj [(js ''count'', JNum (Fin 0))]) = Inr []
   \<and> listTables_result (JObj [(js ''dataset'', JStr (js ''none''))]) = Inr []"
proof -
  note q = calm_query [where a = two_tables_answer and cfg = default_config and s = fresh_state
      and q = "js ''SELECT table_name FROM tables() ORDER BY table_name''",
      OF listTables_query_select]
  note t = listTables_projects [where cfg = default_config and env = "calm_env two_tables_answer"
      and s = fresh_state and result = two_tables_answer
      and rows = "[JArr [JStr (js ''quotes'')], JArr [JStr (js ''trades'')]]"
      and dataset = JUndefined
      and s' = "fresh_state\<lparr>trace := trace fresh_state @
        [HttpGet (exec_request default_config (calm_env two_tables_answer)
           (js ''SELECT table_name FROM tables() ORDER BY table_name'') (js ''json''))]\<rparr>"]
  have d: "get_member two_tables_answer (js ''dataset'') =
      Inr (JArr [JArr [JStr (js ''quotes'')], JArr [JStr (js ''trades'')]])"
    by (simp add: two_tables_answer_def js_def)
  have r: "listTables_result two_tables_answer =
      Inr (map first_cell [JArr [JStr (js ''quotes'')], JArr [JStr (js ''trades'')]])"
    using t d by simp
  have a: "listTables default_config (calm_env two_tables_answer) fresh_state =
     (Inr [JStr (js ''quotes''), JStr (js ''trades'')],
      fresh_state\<lparr>trace := trace fresh_state @
        [HttpGet (exec_request default_config (calm_env two_tables_answer)
           (js ''SELECT table_name FROM tables() ORDER BY table_name'') (js ''json''))]\<rparr>)"
    using t q r by (simp add: first_cell_def)
  have b: "listTables_result JNull = Inr []"
    using listTables_projects [where result = JNull and dataset = JUndefined and rows = "[]"
        and cfg = default_config and env = "calm_env JNull" and s = fresh_state]
    by simp
  have c: "listTables_result (JObj [(js ''count'', JNum (Fin 0))]) = Inr []"
    using listTables_projects [where result = "JObj [(js ''count'', JNum (Fin 0))]"
        and dataset = JUndefined and rows = "[]"
        and cfg = default_config and env = "calm_env JNull" and s = fresh_state]
    by (simp add: js_def Array_isArray_def)
  have e: "listTables_result (JObj [(js ''dataset'', JStr (js ''none''))]) = Inr []"
    using listTables_projects [where result = "JObj [(js ''dataset'', JStr (js ''none''))]"
        and dataset = "JStr (js ''none'')" and rows = "[]"
        and cfg = default_config and env = "calm_env JNull" and s = fresh_state]
    by (simp add: Array_isArray_def)
  from a b c e show ?thesis by blast
qed

subsection \<open>Tool handlers\<close>

lemma handler_catch_run:
  "\<exists>logs. fst (handler_catch env p e s) = Inr (error_envelope (errorMessage env e))
      \<and> sender (snd (handler_catch env p e s)) = sender s
      \<and> trace (snd (handler_catch env p e s)) = trace s @ logs
      \<and> adapter_calls logs = []"
proof -
  from logger_error_run [of env "p @ errorMessage env e" s] obtain logs where
    l: "fst (logger_error env (p @ errorMessage env e) s) = Inr ()"
       "sender (snd (logger_error env (p @ errorMessage env e) s)) = sender s"
       "trace (snd (logger_error env (p @ errorMessage env e) s)) = trace s @ logs"
       "adapter_calls logs = []"
    by blast
  have "handler_catch env p e s =
      (Inr (error_envelope (errorMessage env e)),
       snd (logger_error env (p @ errorMessage env e) s))"
    using bind_Inr [where m = "logger_error env (p @ errorMessage env e)" and s = s
        and x = "()" and f = "\<lambda>u. ret (error_envelope (errorMessage env e))", OF l(1)]
    by (simp add: handler_catch_def Let_def ret_def)
  with l have "fst (handler_catch env p e s) = Inr (error_envelope (errorMessage env e))
      \<and> sender (snd (handler_catch env p e s)) = sender s
      \<and> trace (snd (handler_catch env p e s)) = trace s @ logs
      \<and> adapter_calls logs = []"
    by simp
  then show ?thesis by blast
qed

lemma handler_catch_fst:
  "fst (handler_catch env p e s) = Inr (error_envelope (errorMessage env e))"
  using handler_catch_run [of env p e s] by blast

lemma caught:
  assumes "fst (act s) = Inl e"
  shows "fst (try_catch (bind act cont) (handler_catch env p) s) =
       Inr (error_envelope (errorMessage env e))
     \<and> adapter_calls (trace (snd (try_catch (bind act cont) (handler_catch env p) s))) =
         adapter_calls (trace (snd (act s)))"
proof -
  from assms have b: "bind act cont s = (Inl e, snd (act s))" by (rule bind_Inl)
  then have "fst (bind act cont s) = Inl e" by simp
  then have "try_catch (bind act cont) (handler_catch env p) s =
      handler_catch env p e (snd (bind act cont s))"
    by (rule try_catch_Inl)
  with b have t: "try_catch (bind act cont) (handler_catch env p) s =
      handler_catch env p e (snd (act s))"
    by simp
  from handler_catch_run [of env p e "snd (act s)"] obtain logs where
    "fst (handler_catch env p e (snd (act s))) = Inr (error_envelope (errorMessage env e))"
    "trace (snd (handler_catch env p e (snd (act s)))) = trace (snd (act s)) @ logs"
    "adapter_calls logs = []"
    by blast
  then show ?thesis unfolding t by (simp add: adapter_calls_append)
qed

lemma never_throws: "\<exists>r. fst (try_catch body (handler_catch env p) s) = Inr r"
proof (cases "fst (body s)")
  case (Inl e)
  then have "try_catch body (handler_catch env p) s = handler_catch env p e (snd (body s))"
    by (rule try_catch_Inl)
  with handler_catch_run [of env p e "snd (body s)"] show ?thesis by auto
next
  case (Inr x)
  then have "try_catch body (handler_catch env p) s = (Inr x, snd (body s))"
    by (rule try_catch_Inr)
  then show ?thesis by simp
qed

lemma flush_fails_insert:
  "fst (insert_row default_config flush_fails_env (js ''trades'') sample_row fresh_state) =
     Inl (Error (js ''connection refused''))"
  by (simp add: insert_row_def getSender_def Let_def bind_def sender_do_def try_catch_def
      logger_info_def console_error_def emit_def ret_def close_row_def flush_fails_env_def
      calm_env_def fresh_state_def sample_row_def columnData_def column_call_def
      insert_timestamp_def Number_isInteger_def floor_three_halves count_senders_def js_def)

text \<open>
  C7. In each of the four handlers, an error thrown by the adapter operation is
  caught: the handler returns normally with the envelope whose text is
  \<^verbatim>\<open>Error: \<close> followed by the message of the error and whose
  \<^verbatim>\<open>isError\<close> is true, without structured content, and it makes no request
  and no sender call beyond those of the one operation that failed. No handler
  ever throws.
\<close>

theorem handlers_catch:
  "(fst (query cfg env q (Some (or_json (format_default fmt))) s) = Inl e \<longrightarrow>
      fst (query_handler cfg env q fmt s) = Inr (error_envelope (errorMessage env e))
      \<and> adapter_calls (trace (snd (query_handler cfg env q fmt s))) =
          adapter_calls (trace (snd (query cfg env q (Some (or_json (format_default fmt))) s))))
   \<and> (fst (insert_row cfg env table data s) = Inl e \<longrightarrow>
        fst (insert_handler cfg env table data s) = Inr (error_envelope (errorMessage env e))
        \<and> adapter_calls (trace (snd (insert_handler cfg env table data s))) =
            adapter_calls (trace (snd (insert_row cfg env table data s))))
   \<and> (fst (listTables cfg env s) = Inl e \<longrightarrow>
        fst (list_tables_handler cfg env s) = Inr (error_envelope (errorMessage env e))
        \<and> adapter_calls (trace (snd (list_tables_handler cfg env s))) =
            adapter_calls (trace (snd (listTables cfg env s))))
   \<and> (fst (describeTable cfg env table s) = Inl e \<longrightarrow>
        fst (describe_table_handler cfg env table s) = Inr (error_envelope (errorMessage env e))
        \<and> adapter_calls (trace (snd (describe_table_handler cfg env table s))) =
            adapter_calls (trace (snd (describeTable cfg env table s))))
   \<and> (\<exists>r. fst (query_handler cfg env q fmt s) = Inr r)
   \<and> (\<exists>r. fst (insert_handler cfg env table data s) = Inr r)
   \<and> (\<exists>r. fst (list_tables_handler cfg env s) = Inr r)
   \<and> (\<exists>r. fst (describe_table_handler cfg env table s) = Inr r)
   \<and> error_envelope m =
       \<lparr>content = [\<lparr>item_type = js ''text'', item_text = JStr (js ''Error: '' @ m)\<rparr>],
        structuredContent = None, isError = True\<rparr>"
proof (intro conjI impI)
  assume h: "fst (query cfg env q (Some (or_json (format_default fmt))) s) = Inl e"
  show "fst (query_handler cfg env q fmt s) = Inr (error_envelope (errorMessage env e))"
    "adapter_calls (trace (snd (query_handler cfg env q fmt s))) =
       adapter_calls (trace (snd (query cfg env q (Some (or_json (format_default fmt))) s)))"
    unfolding query_handler_def Let_def
    by (simp_all add: caught [where act = "query cfg env q (Some (or_json (format_default fmt)))"
          and s = s, OF h])
next
  assume h: "fst (insert_row cfg env table data s) = Inl e"
  show "fst (insert_handler cfg env table data s) = Inr (error_envelope (errorMessage env e))"
    "adapter_calls (trace (snd (insert_handler cfg env table data s))) =
       adapter_calls (trace (snd (insert_row cfg env table data s)))"
    unfolding insert_handler_def
    by (simp_all add: caught [where act = "insert_row cfg env table data" and s = s, OF h])
next
  assume h: "fst (listTables cfg env s) = Inl e"
  show "fst (list_tables_handler cfg env s) = Inr (error_envelope (errorMessage env e))"
    "adapter_calls (trace (snd (list_tables_handler cfg env s))) =
       adapter_calls (trace (snd (listTables cfg env s)))"
    unfolding list_tables_handler_def
    by (simp_all add: caught [where act = "listTables cfg env" and s = s, OF h])
next
  assume h: "fst (describeTable cfg env table s) = Inl e"
  show "fst (describe_table_handler cfg env table s) =
      Inr (error_envelope (errorMessage env e))"
    "adapter_calls (trace (snd (describe_table_handler cfg env table s))) =
       adapter_calls (trace (snd (describeTable cfg env table s)))"
    unfolding describe_table_handler_def
    by (simp_all add: caught [where act = "describeTable cfg env table" and s = s, OF h])
next
  show "\<exists>r. fst (query_handler cfg env q fmt s) = Inr r"
    unfolding query_handler_def Let_def by (rule never_throws)
  show "\<exists>r. fst (insert_handler cfg env table data s) = Inr r"
    unfolding insert_handler_def by (rule never_throws)
  show "\<exists>r. fst (list_tables_handler cfg env s) = Inr r"
    unfolding list_tables_handler_def by (rule never_throws)
  show "\<exists>r. fst (describe_table_handler cfg env table s) = Inr r"
    unfolding describe_table_handler_def by (rule never_throws)
  show "error_envelope m =
       \<lparr>content = [\<lparr>item_type = js ''text'', item_text = JStr (js ''Error: '' @ m)\<rparr>],
        structuredContent = None, isError = True\<rparr>"
    by (simp add: error_envelope_def)
qed

theorem handlers_catch_witness:
  "fst (query_handler default_config (calm_env JNull) (js ''DROP TABLE trades'') None
     fresh_state) =
     Inr \<lparr>content = [\<lparr>item_type = js ''text'',
                      item_text = JStr (js ''Error: Only SELECT queries are allowed for safety reasons'')\<rparr>],
          structuredContent = None, isError = True\<rparr>
   \<and> fst (insert_handler default_config flush_fails_env (js ''trades'') sample_row fresh_state) =
       Inr \<lparr>content = [\<lparr>item_type = js ''text'',
                        item_text = JStr (js ''Error: connection refused'')\<rparr>],
            structuredContent = None, isError = True\<rparr>
   \<and> fst (list_tables_handler default_config (calm_env null_row_answer) fresh_state) =
       Inr (error_envelope (js ''Cannot read properties of null (reading '' @ [39] @ js ''0''
              @ [39] @ js '')''))
   \<and> fst (describe_table_handler default_config (calm_env JNull) (js ''no such table'')
        fresh_state) =
       Inr \<lparr>content = [\<lparr>item_type = js ''text'',
                        item_text = JStr (js ''Error: Invalid table name: no such table'')\<rparr>],
            structuredContent = None, isError = True\<rparr>"
proof -
  let ?safety = "Error (js ''Only SELECT queries are allowed for safety reasons'')"
  note t1 = handlers_catch [where cfg = default_config and env = "calm_env JNull"
      and q = "js ''DROP TABLE trades''" and fmt = None and s = fresh_state and e = ?safety
      and table = "[]" and data = "[]"
      and m = "js ''Only SELECT queries are allowed for safety reasons''"]
  have q: "fst (query default_config (calm_env JNull) (js ''DROP TABLE trades'')
      (Some (or_json (format_default None))) fresh_state) = Inl ?safety"
    using drop_not_select by (simp add: query_rejected)
  have a: "fst (query_handler default_config (calm_env JNull) (js ''DROP TABLE trades'') None
     fresh_state) =
     Inr \<lparr>content = [\<lparr>item_type = js ''text'',
                      item_text = JStr (js ''Error: Only SELECT queries are allowed for safety reasons'')\<rparr>],
          structuredContent = None, isError = True\<rparr>"
    using t1 q by (simp add: errorMessage_def js_def)
  note t2 = handlers_catch [where cfg = default_config and env = flush_fails_env
      and q = "[]" and fmt = None and s = fresh_state and e = "Error (js ''connection refused'')"
      and table = "js ''trades''" and data = sample_row and m = "js ''connection refused''"]
  have b: "fst (insert_handler default_config flush_fails_env (js ''trades'') sample_row
      fresh_state) =
       Inr \<lparr>content = [\<lparr>item_type = js ''text'',
                        item_text = JStr (js ''Error: connection refused'')\<rparr>],
            structuredContent = None, isError = True\<rparr>"
    using t2 flush_fails_insert by (simp add: errorMessage_def js_def)
  note t3 = handlers_catch [where cfg = default_config and env = "calm_env null_row_answer"
      and q = "[]" and fmt = None and s = fresh_state
      and e = "cannot_read (js ''null'') (js ''0'')" and table = "[]" and data = "[]"
      and m = "[]"]
  have c: "fst (list_tables_handler default_config (calm_env null_row_answer) fresh_state) =
       Inr (error_envelope (js ''Cannot read properties of null (reading '' @ [39] @ js ''0''
              @ [39] @ js '')''))"
    using t3 null_row_listTables by (simp add: errorMessage_def cannot_read_def js_def)
  let ?invalid = "Error (js ''Invalid table name: '' @ js ''no such table'')"
  note t4 = handlers_catch [where cfg = default_config and env = "calm_env JNull"
      and q = "[]" and fmt = None and s = fresh_state and e = ?invalid
      and table = "js ''no such table''" and data = "[]"
      and m = "js ''Invalid table name: '' @ js ''no such table''"]
  have d0: "fst (describeTable default_config (calm_env JNull) (js ''no such table'')
      fresh_state) = Inl ?invalid"
    by (simp add: describeTable_def throw_def table_name_test_def js_def is_letter_def
        is_digit_def)
  have d: "fst (describe_table_handler default_config (calm_env JNull) (js ''no such table'')
        fresh_state) =
       Inr \<lparr>content = [\<lparr>item_type = js ''text'',
                        item_text = JStr (js ''Error: Invalid table name: no such table'')\<rparr>],
            structuredContent = None, isError = True\<rparr>"
    using t4 d0 by (simp add: errorMessage_def js_def)
  from a b c d show ?thesis by blast
qed

subsection \<open>The output of the query tool\<close>

lemma query_handler_default:
  "query_handler cfg env q None s = query_handler cfg env q (Some (js ''json'')) s"
  by (simp add: query_handler_def format_default_def)

lemma or_json_json: "or_json (js ''json'') = js ''json''"
  by (simp add: or_json_def js_def)

lemma query_handler_json:
  assumes "query cfg env q (Some (js ''json'')) s = (Inr r, s')"
    and "structuredOutput q r = Inr out"
  shows "query_handler cfg env q (Some (js ''json'')) s =
     (Inr \<lparr>content = text_content (JSON_stringify env r), structuredContent = Some out,
           isError = False\<rparr>, s')"
  using assms
  by (simp add: query_handler_def Let_def format_default_def or_json_json try_catch_def bind_def
      await_def ret_def)

lemma query_handler_json_throws:
  assumes "query cfg env q (Some (js ''json'')) s = (Inr r, s')"
    and "structuredOutput q r = Inl e"
  shows "query_handler cfg env q (Some (js ''json'')) s =
     handler_catch env (js ''Query failed: '') e s'"
  using assms
  by (simp add: query_handler_def Let_def format_default_def or_json_json try_catch_def bind_def
      await_def ret_def)

lemma structuredOutput_defined:
  assumes "r \<noteq> JNull" and "r \<noteq> JUndefined"
  shows "\<exists>dataset count columns.
      get_member r (js ''dataset'') = Inr dataset
      \<and> get_member r (js ''count'') = Inr count
      \<and> get_member r (js ''columns'') = Inr columns
      \<and> structuredOutput q r =
          Inr (JObj
            [(js ''query'', JStr q),
             (js ''dataset'', if truthy dataset then dataset else JArr []),
             (js ''count'',
                if truthy count then count
                else if truthy (optional_length dataset) then optional_length dataset
                else JNum (Fin 0)),
             (js ''columns'', if truthy columns then columns else JArr [])])"
  using assms by (cases r) (simp_all add: structuredOutput_def js_or_def)

lemma zero_count_output:
  "structuredOutput (js ''SELECT 1'') zero_count_answer =
     Inr (JObj
       [(js ''query'', JStr (js ''SELECT 1'')),
        (js ''dataset'', JArr [JArr [JNum (Fin 1)]]),
        (js ''count'', JNum (Fin 1)),
        (js ''columns'', JArr [])])"
  by (simp add: structuredOutput_def zero_count_answer_def js_or_def optional_length_def js_def)

lemma zero_count_handler:
  "fst (query_handler default_config (calm_env zero_count_answer) (js ''SELECT 1'') None
     fresh_state) =
     Inr \<lparr>content = text_content (JStr (js ''...'')),
          structuredContent =
            Some (JObj
              [(js ''query'', JStr (js ''SELECT 1'')),
               (js ''dataset'', JArr [JArr [JNum (Fin 1)]]),
               (js ''count'', JNum (Fin 1)),
               (js ''columns'', JArr [])]),
          isError = False\<rparr>"
proof -
  note q = calm_query [where a = zero_count_answer and cfg = default_config and s = fresh_state
      and q = "js ''SELECT 1''", OF select_1]
  from query_handler_json [OF q zero_count_output]
  show ?thesis by (simp add: query_handler_default calm_env_def)
qed

lemma null_answer_handler:
  "fst (query_handler default_config (calm_env JNull) (js ''SELECT 1'') None fresh_state) =
     Inr (error_envelope (js ''Cannot read properties of null (reading '' @ [39]
            @ js ''dataset'' @ [39] @ js '')''))"
proof -
  note q = calm_query [where a = JNull and cfg = default_config and s = fresh_state
      and q = "js ''SELECT 1''", OF select_1]
  have o: "structuredOutput (js ''SELECT 1'') JNull =
      Inl (cannot_read (js ''null'') (js ''dataset''))"
    by (simp add: structuredOutput_def)
  from query_handler_json_throws [OF q o]
  show ?thesis
    by (simp add: query_handler_default handler_catch_fst errorMessage_def cannot_read_def
        js_def)
qed

text \<open>
  C9 as stated fails where the result has a count of zero and a dataset that is
  not empty: for \<^verbatim>\<open>{count: 0, dataset: [[1]]}\<close> the structured output has
  count 1, not the count field of the result. And where the body of the answer
  is \<^verbatim>\<open>null\<close>, the query succeeds and the handler answers with the error
  envelope instead of a structured output.
\<close>

theorem query_output_counterexample:
  "get_member zero_count_answer (js ''count'') = Inr (JNum (Fin 0))
   \<and> fst (query_handler default_config (calm_env zero_count_answer) (js ''SELECT 1'') None
        fresh_state) =
       Inr \<lparr>content = text_content (JStr (js ''...'')),
            structuredContent =
              Some (JObj
                [(js ''query'', JStr (js ''SELECT 1'')),
                 (js ''dataset'', JArr [JArr [JNum (Fin 1)]]),
                 (js ''count'', JNum (Fin 1)),
                 (js ''columns'', JArr [])]),
            isError = False\<rparr>
   \<and> fst (query_handler default_config (calm_env JNull) (js ''SELECT 1'') None fresh_state) =
       Inr (error_envelope (js ''Cannot read properties of null (reading '' @ [39]
              @ js ''dataset'' @ [39] @ js '')''))"
proof -
  have "get_member zero_count_answer (js ''count'') = Inr (JNum (Fin 0))"
    by (simp add: zero_count_answer_def js_def)
  with zero_count_handler null_answer_handler show ?thesis by blast
qed

text \<open>
  C9, amended. A call of the query tool without a format is the call with format
  \<^verbatim>\<open>json\<close>. When the query with format \<^verbatim>\<open>json\<close> returns a result that is
  neither \<^verbatim>\<open>null\<close> nor \<^verbatim>\<open>undefined\<close>, the handler returns, with no further
  effect, the structured output \<^verbatim>\<open>{query, dataset, count, columns}\<close>: the
  query text as given; the dataset and the columns of the result, or the empty
  array where they are falsy; and as count the count of the result when it is
  truthy, else the length of the dataset when that is truthy, else 0. The length
  of a dataset that is an array is its number of rows.
\<close>

theorem query_output:
  "query_handler cfg env q None s = query_handler cfg env q (Some (js ''json'')) s
   \<and> (query cfg env q (Some (js ''json'')) s = (Inr r, s') \<and> r \<noteq> JNull \<and> r \<noteq> JUndefined \<longrightarrow>
        (\<exists>dataset count columns.
           get_member r (js ''dataset'') = Inr dataset
           \<and> get_member r (js ''count'') = Inr count
           \<and> get_member r (js ''columns'') = Inr columns
           \<and> query_handler cfg env q (Some (js ''json'')) s =
               (Inr \<lparr>content = text_content (JSON_stringify env r),
                     structuredContent =
                       Some (JObj
                         [(js ''query'', JStr q),
                          (js ''dataset'', if truthy dataset then dataset else JArr []),
                          (js ''count'',
                             if truthy count then count
                             else if truthy (optional_length dataset)
                             then optional_length dataset
                             else JNum (Fin 0)),
                          (js ''columns'', if truthy columns then columns else JArr [])]),
                     isError = False\<rparr>, s')))
   \<and> optional_length (JArr rows) = JNum (Fin (of_nat (length rows)))
   \<and> optional_length JUndefined = JUndefined"
proof (intro conjI impI)
  show "query_handler cfg env q None s = query_handler cfg env q (Some (js ''json'')) s"
    by (rule query_handler_default)
  show "optional_length (JArr rows) = JNum (Fin (of_nat (length rows)))"
    by (simp add: optional_length_def)
  show "optional_length JUndefined = JUndefined"
    by (simp add: optional_length_def)
next
  assume a: "query cfg env q (Some (js ''json'')) s = (Inr r, s') \<and> r \<noteq> JNull \<and> r \<noteq> JUndefined"
  then obtain dataset count columns where
    g: "get_member r (js ''dataset'') = Inr dataset"
       "get_member r (js ''count'') = Inr count"
       "get_member r (js ''columns'') = Inr columns"
    and o: "structuredOutput q r =
          Inr (JObj
            [(js ''query'', JStr q),
             (js ''dataset'', if truthy dataset then dataset else JArr []),
             (js ''count'',
                if truthy count then count
                else if truthy (optional_length dataset) then optional_length dataset
                else JNum (Fin 0)),
             (js ''columns'', if truthy columns then columns else JArr [])])"
    using structuredOutput_defined [of r q] by blast
  from a have q: "query cfg env q (Some (js ''json'')) s = (Inr r, s')" by simp
  from query_handler_json [OF q o] g
  show "\<exists>dataset count columns.
           get_member r (js ''dataset'') = Inr dataset
           \<and> get_member r (js ''count'') = Inr count
           \<and> get_member r (js ''columns'') = Inr columns
           \<and> query_handler cfg env q (Some (js ''json'')) s =
               (Inr \<lparr>content = text_content (JSON_stringify env r),
                     structuredContent =
                       Some (JObj
                         [(js ''query'', JStr q),
                          (js ''dataset'', if truthy dataset then dataset else JArr []),
                          (js ''count'',
                             if truthy count then count
                             else if truthy (optional_length dataset)
                             then optional_length dataset
                             else JNum (Fin 0)),
                          (js ''columns'', if truthy columns then columns else JArr [])]),
                     isError = False\<rparr>, s')"
    by blast
qed

theorem query_output_witness:
  "query_handler default_config (calm_env two_tables_answer) (js ''SELECT 1'') None fresh_state =
     (Inr \<lparr>content = text_content (JStr (js ''...'')),
           structuredContent =
             Some (JObj
               [(js ''query'', JStr (js ''SELECT 1'')),
                (js ''dataset'', JArr [JArr [JStr (js ''quotes'')], JArr [JStr (js ''trades'')]]),
                (js ''count'', JNum (Fin 2)),
                (js ''columns'', JArr [JObj [(js ''name'', JStr (js ''table_name''))]])]),
           isError = False\<rparr>,
      fresh_state\<lparr>trace := trace fresh_state @
        [HttpGet (exec_request default_config (calm_env two_tables_answer) (js ''SELECT 1'')
           (js ''json''))]\<rparr>)"
proof -
  note q = calm_query [where a = two_tables_answer and cfg = default_config and s = fresh_state
      and q = "js ''SELECT 1''", OF select_1]
  note t = query_output [where cfg = default_config and env = "calm_env two_tables_answer"
      and q = "js ''SELECT 1''" and s = fresh_state and r = two_tables_answer
      and rows = "[]"
      and s' = "fresh_state\<lparr>trace := trace fresh_state @
        [HttpGet (exec_request default_config (calm_env two_tables_answer) (js ''SELECT 1'')
           (js ''json''))]\<rparr>"]
  have n: "two_tables_answer \<noteq> JNull \<and> two_tables_answer \<noteq> JUndefined"
    by (simp add: two_tables_answer_def)
  have g: "get_member two_tables_answer (js ''dataset'') =
        Inr (JArr [JArr [JStr (js ''quotes'')], JArr [JStr (js ''trades'')]])"
      "get_member two_tables_answer (js ''count'') = Inr (JNum (Fin 2))"
      "get_member two_tables_answer (js ''columns'') =
        Inr (JArr [JObj [(js ''name'', JStr (js ''table_name''))]])"
    by (simp_all add: two_tables_answer_def js_def)
  from t q n obtain dataset count columns where
    h: "get_member two_tables_answer (js ''dataset'') = Inr dataset"
       "get_member two_tables_answer (js ''count'') = Inr count"
       "get_member two_tables_answer (js ''columns'') = Inr columns"
       "query_handler default_config (calm_env two_tables_answer) (js ''SELECT 1'')
          (Some (js ''json'')) fresh_state =
          (Inr \<lparr>content = text_content (JSON_stringify (calm_env two_tables_answer)
                            two_tables_answer),
                structuredContent =
                  Some (JObj
                    [(js ''query'', JStr (js ''SELECT 1'')),
                     (js ''dataset'', if truthy dataset then dataset else JArr []),
                     (js ''count'',
                        if truthy count then count
                        else if truthy (optional_length dataset)
                        then optional_length dataset
                        else JNum (Fin 0)),
                     (js ''columns'', if truthy columns then columns else JArr [])]),
                isError = False\<rparr>,
           fresh_state\<lparr>trace := trace fresh_state @
             [HttpGet (exec_request default_config (calm_env two_tables_answer) (js ''SELECT 1'')
                (js ''json''))]\<rparr>)"
    by blast
  from h(1) g(1) have d: "dataset = JArr [JArr [JStr (js ''quotes'')], JArr [JStr (js ''trades'')]]"
    by simp
  from h(2) g(2) have c: "count = JNum (Fin 2)" by simp
  from h(3) g(3) have k: "columns = JArr [JObj [(js ''name'', JStr (js ''table_name''))]]"
    by simp
  have "query_handler default_config (calm_env two_tables_answer) (js ''SELECT 1'') None
      fresh_state =
      query_handler default_config (calm_env two_tables_answer) (js ''SELECT 1'')
        (Some (js ''json'')) fresh_state"
    using t by blast
  with h(4) d c k show ?thesis
    by (simp add: calm_env_def)
qed

end
